theory Spec2Isabelle
  imports Complex_Main "HOL-Library.Word" "HOL-Library.Sublist"
begin

unbundle bit_operations_syntax

chapter \<open>The audio worker of worker.js: model\<close>

section \<open>Values thrown and caught\<close>

text \<open>
  A thrown JavaScript value is modelled as an Error object with the three properties the
  handlers of worker.js read: \<open>name\<close>, \<open>message\<close> and \<open>code\<close>.
  A computation that may throw returns \<open>exn + 'a\<close>, with \<open>Inl\<close> the thrown value.
\<close>

datatype exn = Exn (exn_name: string) (exn_message: string) (exn_code: string)

definition range_error :: exn where
  "range_error = Exn ''RangeError'' ''The value is out of range'' ''ERR_OUT_OF_RANGE''"

definition bind_e :: "exn + 'a \<Rightarrow> ('a \<Rightarrow> exn + 'b) \<Rightarrow> exn + 'b" where
  "bind_e m f = (case m of Inl e \<Rightarrow> Inl e | Inr x \<Rightarrow> f x)"

section \<open>Buffers and pcmToWavBuffer (worker.js, lines 46-68)\<close>

text \<open>
  A Node Buffer is a list of bytes; an Int16Array is a list of 16-bit words, laid out in
  memory low byte first (the little-endian layout of the platforms Node runs on).
  \<open>Buffer.alloc\<close> gives zeroes. \<open>buffer.write\<close>, \<open>writeUInt32LE\<close>,
  \<open>writeUInt16LE\<close> and \<open>copy\<close> overwrite bytes from an offset on; they throw a
  RangeError when the offset lies outside the buffer, and the integer writers also when the
  value does not fit the field.
\<close>

type_synonym byte = "8 word"
type_synonym int16 = "16 word"

definition alloc :: "nat \<Rightarrow> byte list" where
  "alloc n = replicate n 0"

definition write_bytes :: "byte list \<Rightarrow> byte list \<Rightarrow> nat \<Rightarrow> byte list" where
  "write_bytes buf bs off =
     take off buf @ take (length buf - off) bs @ drop (off + length bs) buf"

definition ascii :: "string \<Rightarrow> byte list" where
  "ascii s = map of_char s"

definition write_ascii :: "byte list \<Rightarrow> string \<Rightarrow> nat \<Rightarrow> exn + byte list" where
  "write_ascii buf s off =
     (if length buf < off then Inl range_error else Inr (write_bytes buf (ascii s) off))"

text \<open>The bytes \<open>writeUIntLE\<close> stores: the low byte, then the value shifted right by 8.\<close>

fun le_bytes :: "nat \<Rightarrow> int \<Rightarrow> byte list" where
  "le_bytes 0 v = []"
| "le_bytes (Suc n) v = word_of_int v # le_bytes n (v div 256)"

definition writeUIntLE :: "nat \<Rightarrow> byte list \<Rightarrow> int \<Rightarrow> nat \<Rightarrow> exn + byte list" where
  "writeUIntLE n buf v off =
     (if v < 0 \<or> 2 ^ (8 * n) \<le> v \<or> length buf < off + n then Inl range_error
      else Inr (write_bytes buf (le_bytes n v) off))"

definition writeUInt32LE :: "byte list \<Rightarrow> int \<Rightarrow> nat \<Rightarrow> exn + byte list" where
  "writeUInt32LE = writeUIntLE 4"

definition writeUInt16LE :: "byte list \<Rightarrow> int \<Rightarrow> nat \<Rightarrow> exn + byte list" where
  "writeUInt16LE = writeUIntLE 2"

definition int16_bytes :: "int16 \<Rightarrow> byte list" where
  "int16_bytes w = [ucast w, ucast (drop_bit 8 w)]"

definition pcm_bytes :: "int16 list \<Rightarrow> byte list" where
  "pcm_bytes xs = concat (map int16_bytes xs)"

definition copy_to :: "byte list \<Rightarrow> byte list \<Rightarrow> nat \<Rightarrow> exn + byte list" where
  "copy_to src buf off =
     (if length buf < off then Inl range_error else Inr (write_bytes buf src off))"

definition VOICE_SAMPLE_RATE :: int where
  "VOICE_SAMPLE_RATE = 48000"

definition pcmToWavBuffer :: "int16 list \<Rightarrow> int \<Rightarrow> exn + byte list" where
  "pcmToWavBuffer int16 sampleRate =
     (let numChannels = 1; bitsPerSample = 16;
          byteRate = sampleRate * numChannels * bitsPerSample div 8;
          blockAlign = numChannels * bitsPerSample div 8;
          dataSize = int (length int16) * 2;
          buffer = alloc (44 + nat dataSize)
      in bind_e (write_ascii buffer ''RIFF'' 0) (\<lambda>buffer.
         bind_e (writeUInt32LE buffer (36 + dataSize) 4) (\<lambda>buffer.
         bind_e (write_ascii buffer ''WAVE'' 8) (\<lambda>buffer.
         bind_e (write_ascii buffer ''fmt '' 12) (\<lambda>buffer.
         bind_e (writeUInt32LE buffer 16 16) (\<lambda>buffer.
         bind_e (writeUInt16LE buffer 1 20) (\<lambda>buffer.
         bind_e (writeUInt16LE buffer numChannels 22) (\<lambda>buffer.
         bind_e (writeUInt32LE buffer sampleRate 24) (\<lambda>buffer.
         bind_e (writeUInt32LE buffer byteRate 28) (\<lambda>buffer.
         bind_e (writeUInt16LE buffer blockAlign 32) (\<lambda>buffer.
         bind_e (writeUInt16LE buffer bitsPerSample 34) (\<lambda>buffer.
         bind_e (write_ascii buffer ''data'' 36) (\<lambda>buffer.
         bind_e (writeUInt32LE buffer dataSize 40) (\<lambda>buffer.
         copy_to (pcm_bytes int16) buffer 44))))))))))))))"

text \<open>
  How a reader of the RIFF layout decodes a file: an unsigned little-endian integer of
  \<open>n\<close> bytes at an offset, and a four-character chunk tag at an offset.
\<close>

definition readUIntLE :: "nat \<Rightarrow> byte list \<Rightarrow> nat \<Rightarrow> int" where
  "readUIntLE n buf off = horner_sum uint 256 (take n (drop off buf))"

definition tag_at :: "byte list \<Rightarrow> nat \<Rightarrow> byte list" where
  "tag_at buf off = take 4 (drop off buf)"

definition wav_header :: "int \<Rightarrow> int \<Rightarrow> byte list" where
  "wav_header sampleRate dataSize =
     ascii ''RIFF'' @ le_bytes 4 (36 + dataSize) @ ascii ''WAVE'' @
     ascii ''fmt '' @ le_bytes 4 16 @ le_bytes 2 1 @ le_bytes 2 1 @
     le_bytes 4 sampleRate @ le_bytes 4 (sampleRate * 2) @ le_bytes 2 2 @ le_bytes 2 16 @
     ascii ''data'' @ le_bytes 4 dataSize"

text \<open>The sample rate, the byte rate and the sizes fit the 32-bit fields of the header.\<close>

definition fits_wav :: "int16 list \<Rightarrow> int \<Rightarrow> bool" where
  "fits_wav int16 sampleRate =
     (0 \<le> sampleRate \<and> sampleRate * 2 < 2 ^ 32 \<and> 36 + 2 * int (length int16) < 2 ^ 32)"

section \<open>Silence gate: rmsDbFS (worker.js, lines 83-100)\<close>

text \<open>
  The level of a chunk in dB relative to full scale. JavaScript computes it in double
  precision: every addition, multiplication, division and square root of lines 93-97 rounds
  its result, \<open>Math.log10\<close> returns what the runtime's library returns, and the literal
  \<open>1e-12\<close> is the double next to that number. The model fixes none of this: the
  arithmetic of the runtime is a record of these operations, on doubles read as the real
  numbers they denote, and \<open>rmsDbFS\<close> applies them in the order of the source. (The
  computation meets no NaN and no infinity: the sum of squares is finite and not negative,
  and a positive number is added before the logarithm.) The samples, their number and the
  literals 32768, 20, -120 and -55 are doubles as they stand; \<open>Math.max\<close> and the
  comparisons do not round.
\<close>

record float_ops =
  fl_add :: "real \<Rightarrow> real \<Rightarrow> real"
  fl_mul :: "real \<Rightarrow> real \<Rightarrow> real"
  fl_div :: "real \<Rightarrow> real \<Rightarrow> real"
  fl_sqrt :: "real \<Rightarrow> real"
  fl_log10 :: "real \<Rightarrow> real"
  fl_1e_12 :: real

definition SILENCE_DB :: real where
  "SILENCE_DB = - 55"

definition rmsDbFS :: "float_ops \<Rightarrow> int16 list \<Rightarrow> real" where
  "rmsDbFS fl int16 =
     (if int16 = [] then - 120
      else let total = foldl (\<lambda>acc x. let s = fl_div fl (real_of_int (sint x)) 32768
                                       in fl_add fl acc (fl_mul fl s s)) 0 int16;
               rms = fl_sqrt fl (fl_div fl total (real (length int16)));
               db = fl_mul fl 20 (fl_log10 fl (fl_add fl rms (fl_1e_12 fl)))
           in max (- 120) db)"

text \<open>The arithmetic that rounds nothing.\<close>

definition exact_arith :: float_ops where
  "exact_arith =
     \<lparr>fl_add = (\<lambda>x y. x + y), fl_mul = (\<lambda>x y. x * y), fl_div = (\<lambda>x y. x / y),
      fl_sqrt = sqrt, fl_log10 = log 10, fl_1e_12 = 1 / 10 ^ 12\<rparr>"

section \<open>The worker object (class LiveKitAudioWorker, constructor at lines 175-189)\<close>

type_synonym identity = string

text \<open>A reading of \<open>Date.now()\<close>: milliseconds since the epoch.\<close>

type_synonym time = int

datatype connection_state = ConnDisconnected | ConnConnected | ConnReconnecting

text \<open>
  A route is the object stored in \<open>this.routes\<close>: key, voiceId, source and track. The
  AudioSource and the LocalAudioTrack are handles; \<open>rt_source\<close> is \<open>None\<close> once the
  participant-left handler has set \<open>route.source = null\<close>.
\<close>

record route =
  rt_key :: string
  rt_voiceId :: string
  rt_source :: "nat option"
  rt_track :: nat

record voice_info =
  voiceId :: string
  voiceName :: string

text \<open>
  Console output. The lines the properties below speak of have a constructor of their own;
  every other line is a \<open>Note\<close> with the fixed part of its message.
\<close>

datatype log_line =
    ServiceError nat string
  | QuotaExhaustedPausing
  | RateLimitedBackingOff
  | Recreating identity
  | RequestTimedOut
  | SendFailed identity string
  | Note string

text \<open>
  What the worker does to the outside: requests to the transformation service, publications,
  calls of \<open>captureFrame\<close>, the request for a participant's voice, a call of
  \<open>connectToRoom\<close>, log lines.
\<close>

datatype effect =
    Fetch string "byte list"
  | PublishTrack nat string
  | UnpublishTrack nat
  | CaptureFrame nat "int16 list"
  | GetVoice identity
  | ConnectToRoom
  | Log log_line

datatype timer_action = ForgetRecreated identity | RetryStart identity | Reconnect

text \<open>
  The fields of the worker object that the audio path reads and writes, and below them what
  the JavaScript runtime and the room hold for it: the tracks the local participant has
  published, the next fresh handle of an AudioSource or LocalAudioTrack, the pending
  \<open>setTimeout\<close> callbacks with the time they are due (one deletes an identity from
  \<open>recentlyRecreated\<close>, one retries the start of a stream, one reconnects: the timer
  \<open>this._reconnectTimer\<close> refers to), the relay loops
  (the async functions started by \<open>_startAudioStream\<close>) that have not reached their
  \<open>finally\<close> block, and the floating-point arithmetic. \<open>room\<close> is \<open>None\<close> for
  \<open>this.room = null\<close>, else the connection state of the room.
\<close>

record worker =
  room :: "connection_state option"
  participantVoices :: "identity \<rightharpoonup> voice_info"
  routes :: "identity \<rightharpoonup> route"
  activeS2S :: "identity set"
  quotaExhausted :: "time option"
  lastSuccessfulCall :: time
  recentlyRecreated :: "identity set"
  published :: "nat list"
  next_handle :: nat
  timers :: "(time \<times> timer_action) list"
  running :: "identity list"
  arithmetic :: float_ops

text \<open>
  JavaScript truthiness of \<open>this.quotaExhausted\<close>: \<open>null\<close> and the number 0 are falsy.
\<close>

definition truthy_time :: "time option \<Rightarrow> bool" where
  "truthy_time q = (case q of None \<Rightarrow> False | Some t \<Rightarrow> t \<noteq> 0)"

text \<open>\<open>String.prototype.includes\<close> and \<open>startsWith\<close>.\<close>

fun str_includes :: "string \<Rightarrow> string \<Rightarrow> bool" where
  "str_includes [] sub = (sub = [])"
| "str_includes (c # cs) sub = (prefix sub (c # cs) \<or> str_includes cs sub)"

definition startsWith :: "string \<Rightarrow> string \<Rightarrow> bool" where
  "startsWith s p = prefix p s"

definition type_error :: exn where
  "type_error = Exn ''TypeError'' ''Cannot read properties of null'' ''''"

section \<open>The quota reset timer (setupQuotaResetTimer, lines 191-202)\<close>

definition quota_reset_tick :: "time \<Rightarrow> worker \<Rightarrow> worker \<times> effect list" where
  "quota_reset_tick now w =
     (case quotaExhausted w of
        None \<Rightarrow> (w, [])
      | Some q \<Rightarrow>
          if q \<noteq> 0 \<and> now - q > 60000
          then (w\<lparr>quotaExhausted := None\<rparr>, [Log (Note ''Quota reset timer'')])
          else (w, []))"

section \<open>Publishing and unpublishing (the room's local participant)\<close>

text \<open>
  \<open>this.room.localParticipant.publishTrack\<close> and \<open>unpublishTrack\<close>. With
  \<open>this.room = null\<close> the property access throws a TypeError. Otherwise the outcome is
  the transport's: \<open>None\<close> when the promise resolves, \<open>Some e\<close> when it rejects with
  \<open>e\<close>; a rejected call leaves the set of published tracks as it was.
\<close>

definition publishTrack ::
  "exn option \<Rightarrow> nat \<Rightarrow> string \<Rightarrow> worker \<Rightarrow> (exn + unit) \<times> worker \<times> effect list" where
  "publishTrack outcome trk nm w =
     (case room w of
        None \<Rightarrow> (Inl type_error, w, [])
      | Some _ \<Rightarrow>
          (case outcome of
             Some e \<Rightarrow> (Inl e, w, [PublishTrack trk nm])
           | None \<Rightarrow> (Inr (), w\<lparr>published := published w @ [trk]\<rparr>, [PublishTrack trk nm])))"

definition unpublishTrack ::
  "exn option \<Rightarrow> nat \<Rightarrow> worker \<Rightarrow> (exn + unit) \<times> worker \<times> effect list" where
  "unpublishTrack outcome trk w =
     (case room w of
        None \<Rightarrow> (Inl type_error, w, [])
      | Some _ \<Rightarrow>
          (case outcome of
             Some e \<Rightarrow> (Inl e, w, [UnpublishTrack trk])
           | None \<Rightarrow> (Inr (), w\<lparr>published := removeAll trk (published w)\<rparr>, [UnpublishTrack trk])))"

text \<open>\<open>new AudioSource(48000, 1)\<close> and \<open>LocalAudioTrack.createAudioTrack\<close>: two fresh handles.\<close>

definition new_source_and_track :: "worker \<Rightarrow> nat \<times> nat \<times> worker" where
  "new_source_and_track w =
     (next_handle w, next_handle w + 1, w\<lparr>next_handle := next_handle w + 2\<rparr>)"

section \<open>recreateRouteForParticipant (lines 558-604)\<close>

text \<open>
  The outcomes of the two transport calls are inputs: \<open>unpub\<close> for unpublishing the old
  track, \<open>pub\<close> for publishing the new one. The function catches everything it throws.
\<close>

definition recreateRouteForParticipant ::
  "exn option \<Rightarrow> exn option \<Rightarrow> identity \<Rightarrow> worker \<Rightarrow> worker \<times> effect list" where
  "recreateRouteForParticipant unpub pub participantIdentity w =
     (case participantVoices w participantIdentity of
        None \<Rightarrow> (w, [Log (Recreating participantIdentity), Log (Note ''No voice info found, cannot recreate route'')])
      | Some voiceInfo \<Rightarrow>
          let (w1, fx1) =
                (case routes w participantIdentity of
                   None \<Rightarrow> (w, [])
                 | Some oldRoute \<Rightarrow>
                     (case unpublishTrack unpub (rt_track oldRoute) w of
                        (Inl e, wu, fxu) \<Rightarrow>
                          (wu\<lparr>routes := (routes wu)(participantIdentity := None)\<rparr>,
                           fxu @ [Log (Note ''Failed to unpublish old track'')])
                      | (Inr _, wu, fxu) \<Rightarrow>
                          (wu\<lparr>routes := (routes wu)(participantIdentity := None)\<rparr>, fxu)));
              routeKey = ''from-'' @ participantIdentity;
              (src, trk, w2) = new_source_and_track w1
          in (case publishTrack pub trk routeKey w2 of
                (Inl e, w3, fx3) \<Rightarrow>
                  (w3, Log (Recreating participantIdentity) # fx1 @ fx3 @
                       [Log (Note ''Failed to recreate route'')])
              | (Inr _, w3, fx3) \<Rightarrow>
                  (w3\<lparr>routes := (routes w3)(participantIdentity \<mapsto>
                        \<lparr>rt_key = routeKey, rt_voiceId = voiceId voiceInfo,
                         rt_source = Some src, rt_track = trk\<rparr>)\<rparr>,
                   Log (Recreating participantIdentity) # fx1 @ fx3 @
                     [Log (Note ''Route recreated'')])))"

section \<open>sendS2SChunk (lines 753-924)\<close>

text \<open>
  The function suspends at \<open>await fetch\<close>. Up to there it runs without interruption:
  \<open>sendS2SChunk_begin\<close> is that part. It changes no field of the worker; it ends by
  returning (\<open>Skip\<close>), by throwing into the function's own catch block (\<open>Throws\<close>), or by
  issuing the request (\<open>Request\<close>, with the route object it holds on to).
\<close>

datatype decision = Skip | Throws exn | Request route "byte list"

definition sendS2SChunk_begin ::
  "time \<Rightarrow> identity \<Rightarrow> int16 list \<Rightarrow> worker \<Rightarrow> decision \<times> effect list" where
  "sendS2SChunk_begin now speakerIdentity int16 w =
     (if room w \<noteq> Some ConnConnected then (Skip, [Log (Note ''Room not connected - skipping chunk'')])
      else case routes w speakerIdentity of
        None \<Rightarrow> (Skip, [Log (Note ''No route found for speaker'')])
      | Some route \<Rightarrow>
          if rt_source route = None \<or> rt_voiceId route = [] then
            (Skip, [Log (Note ''No route found for speaker'')])
          else if (case quotaExhausted w of None \<Rightarrow> False
                   | Some q \<Rightarrow> q \<noteq> 0 \<and> now - q < 60000) then (Skip, [])
          else
            let rmsLevel = rmsDbFS (arithmetic w) int16 in
            if rmsLevel < SILENCE_DB then (Skip, [])
            else if rmsLevel < - 55 then (Skip, [])
            else
              (case pcmToWavBuffer int16 VOICE_SAMPLE_RATE of
                 Inl e \<Rightarrow> (Throws e, [Log (Note ''Processing audio chunk'')])
               | Inr wav \<Rightarrow>
                   (Request route wav,
                    [Log (Note ''Processing audio chunk''), Fetch (rt_voiceId route) wav])))"

text \<open>
  What the transport and the transformation service do while the function is suspended
  is an input of the model: the clock reading at the quota check (\<open>env_start\<close>) and
  the one when the function resumes with the response (\<open>env_now\<close>), the outcome of
  \<open>fetch\<close>, of \<open>res.text()\<close> and \<open>res.arrayBuffer()\<close>, the outcome of each
  \<open>captureFrame\<close> call in order (past the end of the list frames are captured), and the
  outcomes of the unpublish and publish calls of a route recreation.

  \<open>AudioSource.captureFrame\<close> of the SDK is an async function: a call returns a promise,
  and line 873 does not await it. The promise resolves when the frame is captured
  (\<open>CaptureResolves\<close>) or rejects when the capture fails (\<open>CaptureRejects\<close>); either
  way the call itself returns and the loop goes on, and a rejection reaches none of the
  worker's catch blocks: it goes to the \<open>unhandledRejection\<close> handler of the process. A
  call that throws at once (\<open>CaptureThrows\<close>), which an async function never does, is
  what the catch blocks of lines 875-901 are written for.
\<close>

datatype capture_result = CaptureResolves | CaptureRejects exn | CaptureThrows exn

record response =
  res_status :: nat
  res_text :: "string option"
  res_arrayBuffer :: "exn + byte list"

definition res_ok :: "response \<Rightarrow> bool" where
  "res_ok res = (200 \<le> res_status res \<and> res_status res \<le> 299)"

datatype fetch_outcome = FetchRejects exn | FetchResolves response

record send_env =
  env_start :: time
  env_now :: time
  env_fetch :: fetch_outcome
  env_captures :: "capture_result list"
  env_unpublish :: "exn option"
  env_publish :: "exn option"

definition capture_outcome :: "send_env \<Rightarrow> nat \<Rightarrow> capture_result" where
  "capture_outcome env k =
     (if k < length (env_captures env) then env_captures env ! k else CaptureResolves)"

text \<open>
  The \<open>unhandledRejection\<close> handler (lines 222-228): silent on an InvalidState error, a
  log line for any other reason. It changes no field of the worker.
\<close>

definition on_unhandledRejection :: "exn \<Rightarrow> effect list" where
  "on_unhandledRejection reason =
     (if exn_message reason \<noteq> [] \<and> str_includes (exn_message reason) ''InvalidState'' then []
      else [Log (Note ''Unhandled Promise Rejection'')])"

text \<open>
  \<open>new Int16Array(buf.buffer, buf.byteOffset, Math.floor(buf.length / 2))\<close>: pairs of
  bytes, low byte first; a trailing odd byte is left out.
\<close>

fun int16_of_bytes :: "byte list \<Rightarrow> int16 list" where
  "int16_of_bytes (lo # hi # rest) = (push_bit 8 (ucast hi) OR ucast lo) # int16_of_bytes rest"
| "int16_of_bytes _ = []"

text \<open>
  The slices of the publishing loop: \<open>for (i = 0; i + 960 <= pcmAll.length; i += 960)\<close>,
  each \<open>pcmAll.subarray(i, i + 960)\<close>.
\<close>

definition samplesPer20ms :: nat where
  "samplesPer20ms = 960"

function frames_20ms :: "int16 list \<Rightarrow> int16 list list" where
  "frames_20ms pcmAll =
     (if samplesPer20ms \<le> length pcmAll
      then take samplesPer20ms pcmAll # frames_20ms (drop samplesPer20ms pcmAll)
      else [])"
  by pat_completeness auto
termination
  by (relation "measure length") (auto simp: samplesPer20ms_def)

text \<open>
  The catch block around \<open>captureFrame\<close> (lines 875-891), entered when the call throws:
  on a channel-invalid error it recreates the route unless the identity is marked as recently
  recreated, and in every case throws the error again. The timer it sets is due 5000 ms later.
\<close>

definition on_capture_error ::
  "send_env \<Rightarrow> identity \<Rightarrow> exn \<Rightarrow> worker \<Rightarrow> (exn + unit) \<times> worker \<times> effect list" where
  "on_capture_error env speakerIdentity captureError w =
     (if str_includes (exn_message captureError) ''InvalidState'' \<or>
         str_includes (exn_message captureError) ''failed to capture frame'' then
        (if speakerIdentity \<notin> recentlyRecreated w then
           let w1 = w\<lparr>recentlyRecreated := insert speakerIdentity (recentlyRecreated w),
                      timers := timers w @ [(env_now env + 5000, ForgetRecreated speakerIdentity)]\<rparr>;
               (w2, fx) = recreateRouteForParticipant (env_unpublish env) (env_publish env)
                            speakerIdentity w1
           in (Inl captureError, w2, Log (Note ''AudioSource invalid - attempting recovery'') # fx)
         else (Inl captureError, w, []))
      else (Inl captureError, w, [Log (Note ''AudioSource.captureFrame failed'')]))"

text \<open>
  The catch block of one iteration (lines 892-901): it logs, takes the identity out of
  \<open>activeS2S\<close> on an InvalidState error, and leaves the loop.
\<close>

definition on_frame_error :: "identity \<Rightarrow> exn \<Rightarrow> worker \<Rightarrow> worker \<times> effect list" where
  "on_frame_error speakerIdentity frameError w =
     (if str_includes (exn_message frameError) ''InvalidState''
      then (w\<lparr>activeS2S := activeS2S w - {speakerIdentity}\<rparr>,
            [Log (Note ''Failed to capture audio frame''),
             Log (Note ''Participant appears to have disconnected - stopping processing'')])
      else (w, [Log (Note ''Failed to capture audio frame'')]))"

text \<open>
  The publishing loop (lines 848-902) over the slices still to publish. \<open>route\<close> is the
  object the function fetched before the request; \<open>routes w\<close> is the registry now. The
  result is the value of \<open>framesPublished\<close>, the worker and the effects. A call of
  \<open>captureFrame\<close> that returns a promise counts the frame, whatever becomes of the
  promise; the output of the rejection handler, which runs later, is listed at the call.
\<close>

fun publish_frames ::
  "send_env \<Rightarrow> identity \<Rightarrow> route \<Rightarrow> int16 list list \<Rightarrow> nat \<Rightarrow> worker \<Rightarrow>
   nat \<times> worker \<times> effect list" where
  "publish_frames env speakerIdentity route [] framesPublished w = (framesPublished, w, [])"
| "publish_frames env speakerIdentity route (slc # rest) framesPublished w =
     (case rt_source route of
        None \<Rightarrow> (framesPublished, w, [Log (Note ''Route became invalid during processing'')])
      | Some src \<Rightarrow>
          if routes w speakerIdentity = None then
            (framesPublished, w, [Log (Note ''Route became invalid during processing'')])
          else if room w \<noteq> Some ConnConnected then
            (framesPublished, w, [Log (Note ''Room disconnected during processing'')])
          else if (case routes w speakerIdentity of None \<Rightarrow> True
                   | Some r \<Rightarrow> rt_source r = None) then
            (framesPublished, w, [Log (Note ''Route invalid during processing'')])
          else
            (case capture_outcome env framesPublished of
               CaptureResolves \<Rightarrow>
                 (let (n, w', fx) =
                        publish_frames env speakerIdentity route rest (framesPublished + 1) w
                  in (n, w', CaptureFrame src slc # fx))
             | CaptureRejects reason \<Rightarrow>
                 (let (n, w', fx) =
                        publish_frames env speakerIdentity route rest (framesPublished + 1) w
                  in (n, w', CaptureFrame src slc # on_unhandledRejection reason @ fx))
             | CaptureThrows captureError \<Rightarrow>
                 (case on_capture_error env speakerIdentity captureError w of
                    (Inl frameError, w1, fx1) \<Rightarrow>
                      (let (w2, fx2) = on_frame_error speakerIdentity frameError w1
                       in (framesPublished, w2, fx1 @ fx2))
                  | (Inr _, w1, fx1) \<Rightarrow>
                      (let (n, w', fx) =
                             publish_frames env speakerIdentity route rest (framesPublished + 1) w1
                       in (n, w', fx1 @ fx)))))"

text \<open>
  From the resolved or rejected \<open>fetch\<close> to the end of the try block (lines 810-915).
  The first component is \<open>Some e\<close> when \<open>e\<close> is thrown into the function's catch block.
\<close>

definition sendS2SChunk_response ::
  "send_env \<Rightarrow> identity \<Rightarrow> route \<Rightarrow> worker \<Rightarrow> exn option \<times> worker \<times> effect list" where
  "sendS2SChunk_response env speakerIdentity route w =
     (case env_fetch env of
        FetchRejects e \<Rightarrow> (Some e, w, [])
      | FetchResolves res \<Rightarrow>
          if \<not> res_ok res then
            (let text = (case res_text res of None \<Rightarrow> [] | Some t \<Rightarrow> t) in
             if (res_status res = 401 \<or> res_status res = 429) \<and>
                (str_includes text ''quota_exceeded'' \<or> str_includes text ''quota'') then
               (None, w\<lparr>quotaExhausted := Some (env_now env)\<rparr>, [Log QuotaExhaustedPausing])
             else if res_status res = 429 then
               (None, w\<lparr>quotaExhausted := Some (env_now env)\<rparr>, [Log RateLimitedBackingOff])
             else (None, w, [Log (ServiceError (res_status res) text)]))
          else
            (case res_arrayBuffer res of
               Inl e \<Rightarrow> (Some e, w, [])
             | Inr buf \<Rightarrow>
                 if length buf = 0 then (None, w, [Log (Note ''Received empty response'')])
                 else
                   (let pcmAll = int16_of_bytes buf in
                    if rt_source route = None then
                      (None, w, [Log (Note ''Route source no longer available'')])
                    else
                      (let (framesPublished, w1, fx) =
                             publish_frames env speakerIdentity route (frames_20ms pcmAll) 0 w;
                           w2 = w1\<lparr>lastSuccessfulCall := env_now env\<rparr>;
                           (w3, fx3) =
                             (if truthy_time (quotaExhausted w2)
                              then (w2\<lparr>quotaExhausted := None\<rparr>,
                                    [Log (Note ''quota appears to be restored'')])
                              else (w2, []))
                       in (None, w3, fx @ fx3 @ [Log (Note ''Voice transformation complete'')])))))"

text \<open>The function's catch block (lines 916-923): it logs and returns.\<close>

definition on_send_error :: "identity \<Rightarrow> exn \<Rightarrow> (exn + unit) \<times> effect list" where
  "on_send_error speakerIdentity e =
     (if exn_name e = ''TimeoutError'' \<or> exn_code e = ''ETIMEDOUT''
      then (Inr (), [Log RequestTimedOut])
      else (Inr (), [Log (SendFailed speakerIdentity (exn_message e))]))"

text \<open>
  One whole call, nothing else running between the request and its response: the value the
  returned promise settles with (\<open>Inl e\<close>: it rejects with \<open>e\<close>), the worker and the effects.
\<close>

definition sendS2SChunk ::
  "send_env \<Rightarrow> identity \<Rightarrow> int16 list \<Rightarrow> worker \<Rightarrow>
   (exn + unit) \<times> worker \<times> effect list" where
  "sendS2SChunk env speakerIdentity int16 w =
     (case sendS2SChunk_begin (env_start env) speakerIdentity int16 w of
        (Skip, fx) \<Rightarrow> (Inr (), w, fx)
      | (Throws e, fx) \<Rightarrow>
          (let (r, fxc) = on_send_error speakerIdentity e in (r, w, fx @ fxc))
      | (Request route wav, fx) \<Rightarrow>
          (case sendS2SChunk_response env speakerIdentity route w of
             (None, w', fx') \<Rightarrow> (Inr (), w', fx @ fx')
           | (Some e, w', fx') \<Rightarrow>
               (let (r, fxc) = on_send_error speakerIdentity e in (r, w', fx @ fx' @ fxc))))"

section \<open>The relay loop of a speaker (_startAudioStream, lines 661-750)\<close>

text \<open>
  The synchronous part (lines 663-679). \<open>track\<close> says whether a track object was passed.
  A started loop is entered in \<open>running\<close> until its \<open>finally\<close> block has run.
\<close>

definition startAudioStream :: "bool \<Rightarrow> identity \<Rightarrow> worker \<Rightarrow> worker \<times> effect list" where
  "startAudioStream track speaker w =
     (if \<not> track \<or> speaker = [] \<or> startsWith speaker ''audio-worker-'' then (w, [])
      else if speaker \<in> activeS2S w then
        (w, [Log (Note ''Audio stream already active, skipping duplicate'')])
      else
        (case routes w speaker of
           None \<Rightarrow> (w, [Log (Note ''No route available, skipping stream'')])
         | Some route \<Rightarrow>
             if rt_source route = None \<or> rt_voiceId route = [] then
               (w, [Log (Note ''No route available, skipping stream'')])
             else
               (w\<lparr>activeS2S := insert speaker (activeS2S w), running := running w @ [speaker]\<rparr>,
                [Log (Note ''Starting audio stream'')])))"

text \<open>The \<open>finally\<close> block of the loop (lines 746-748).\<close>

definition relay_finally :: "identity \<Rightarrow> worker \<Rightarrow> worker" where
  "relay_finally speaker w =
     w\<lparr>activeS2S := activeS2S w - {speaker}, running := remove1 speaker (running w)\<rparr>"

text \<open>
  The accumulator: the local variables \<open>buffers\<close>, \<open>totalSamples\<close> and
  \<open>lastChunkTime\<close> of the loop.
\<close>

record acc =
  buffers :: "int16 list list"
  totalSamples :: nat
  lastChunkTime :: time

definition acc_init :: acc where
  "acc_init = \<lparr>buffers = [], totalSamples = 0, lastChunkTime = 0\<rparr>"

text \<open>
  \<open>S2S_CHUNK_MS\<close> is read from the environment (default 1000);
  \<open>samplesPerChunk = Math.max(1, Math.floor((VOICE_SAMPLE_RATE * S2S_CHUNK_MS) / 1000))\<close>.
\<close>

definition samplesPerChunk :: "int \<Rightarrow> nat" where
  "samplesPerChunk chunk_ms = nat (max 1 (VOICE_SAMPLE_RATE * chunk_ms div 1000))"

definition minChunkInterval :: int where
  "minChunkInterval = 200"

text \<open>
  Merging (lines 706-708): \<open>merged = new Int16Array(totalSamples)\<close>, then
  \<open>merged.set(b, o); o += b.length\<close> for every buffer. \<open>set\<close> throws a RangeError when
  the source does not fit at the offset.
\<close>

definition set_at :: "int16 list \<Rightarrow> int16 list \<Rightarrow> nat \<Rightarrow> exn + int16 list" where
  "set_at merged b off =
     (if length merged < off + length b then Inl range_error
      else Inr (take off merged @ b @ drop (off + length b) merged))"

fun merge_into :: "int16 list list \<Rightarrow> int16 list \<Rightarrow> nat \<Rightarrow> exn + int16 list" where
  "merge_into [] merged off = Inr merged"
| "merge_into (b # bs) merged off =
     (case set_at merged b off of
        Inl e \<Rightarrow> Inl e
      | Inr m \<Rightarrow> merge_into bs m (off + length b))"

definition merge_buffers :: "acc \<Rightarrow> exn + int16 list" where
  "merge_buffers a = merge_into (buffers a) (replicate (totalSamples a) 0) 0"

text \<open>
  One frame of the inbound stream: its samples (\<open>None\<close> when the frame carries no data),
  the clock reading of line 702, and what happens if a chunk is sent at this frame.
\<close>

record frame_event =
  frame_data :: "int16 list option"
  frame_now :: time
  frame_env :: send_env

text \<open>How one iteration ends: the loop goes on, \<open>break\<close>, or an exception leaves it.\<close>

datatype step_result = Next | Broke | Threw exn

text \<open>
  One iteration of \<open>for await (const frame of stream)\<close> (lines 690-725). The last
  component lists the calls of sendS2SChunk made: the clock reading and the merged chunk.
\<close>

definition relay_frame ::
  "nat \<Rightarrow> identity \<Rightarrow> frame_event \<Rightarrow> acc \<times> worker \<Rightarrow>
   step_result \<times> (acc \<times> worker) \<times> effect list \<times> (time \<times> int16 list) list" where
  "relay_frame spc speaker ev st =
     (let (a, w) = st in
      case frame_data ev of
        None \<Rightarrow> (Next, (a, w), [], [])
      | Some src \<Rightarrow>
          if length src = 0 then (Next, (a, w), [], [])
          else
            (let a1 = a\<lparr>buffers := buffers a @ [src], totalSamples := totalSamples a + length src\<rparr>;
                 now = frame_now ev;
                 timeSinceLastChunk = now - lastChunkTime a1
             in if spc \<le> totalSamples a1 \<and> minChunkInterval \<le> timeSinceLastChunk then
                  (case merge_buffers a1 of
                     Inl e \<Rightarrow> (Threw e, (a1, w), [], [])
                   | Inr merged \<Rightarrow>
                       (let a2 = a1\<lparr>buffers := [], totalSamples := 0, lastChunkTime := now\<rparr> in
                        case sendS2SChunk (frame_env ev) speaker merged w of
                          (Inr _, w', fx) \<Rightarrow> (Next, (a2, w'), fx, [(now, merged)])
                        | (Inl chunkError, w', fx) \<Rightarrow>
                            if str_includes (exn_message chunkError) ''InvalidState'' then
                              (Broke, (a2, w'\<lparr>activeS2S := activeS2S w' - {speaker}\<rparr>),
                               fx @ [Log (Note ''S2S chunk processing failed''),
                                     Log (Note ''Stopping audio processing due to InvalidState'')],
                               [(now, merged)])
                            else
                              (Next, (a2, w'), fx @ [Log (Note ''S2S chunk processing failed'')],
                               [(now, merged)])))
                else (Next, (a1, w), [], [])))"

fun relay_frames ::
  "nat \<Rightarrow> identity \<Rightarrow> frame_event list \<Rightarrow> acc \<times> worker \<Rightarrow>
   step_result \<times> (acc \<times> worker) \<times> effect list \<times> (time \<times> int16 list) list" where
  "relay_frames spc speaker [] st = (Next, st, [], [])"
| "relay_frames spc speaker (ev # evs) st =
     (case relay_frame spc speaker ev st of
        (Next, st', fx, sent) \<Rightarrow>
          (let (r, st'', fx', sent') = relay_frames spc speaker evs st'
           in (r, st'', fx @ fx', sent @ sent'))
      | (r, st', fx, sent) \<Rightarrow> (r, st', fx, sent))"

text \<open>
  The flush after the loop (lines 727-741). \<open>totalSamples > samplesPerChunk / 2\<close> is a
  comparison of a whole number with a possibly fractional one; doubled, it is
  \<open>samplesPerChunk < 2 * totalSamples\<close>.
\<close>

definition relay_flush ::
  "nat \<Rightarrow> identity \<Rightarrow> send_env \<Rightarrow> acc \<times> worker \<Rightarrow>
   step_result \<times> worker \<times> effect list \<times> (time \<times> int16 list) list" where
  "relay_flush spc speaker env st =
     (let (a, w) = st in
      if spc < 2 * totalSamples a then
        (case merge_buffers a of
           Inl e \<Rightarrow> (Threw e, w, [], [])
         | Inr merged \<Rightarrow>
             (case sendS2SChunk env speaker merged w of
                (Inr _, w', fx) \<Rightarrow> (Next, w', fx, [(env_start env, merged)])
              | (Inl flushError, w', fx) \<Rightarrow>
                  if str_includes (exn_message flushError) ''InvalidState'' then
                    (Next, w'\<lparr>activeS2S := activeS2S w' - {speaker}\<rparr>,
                     fx @ [Log (Note ''S2S flush processing failed''),
                           Log (Note ''Stopping audio processing during flush'')],
                     [(env_start env, merged)])
                  else
                    (Next, w', fx @ [Log (Note ''S2S flush processing failed'')],
                     [(env_start env, merged)])))
      else (Next, w, [], []))"

text \<open>
  The whole async function (lines 682-749) on a stream of frames that ends: the loop, the
  flush, the catch block for what neither caught, and the \<open>finally\<close> block.
\<close>

definition relay_task ::
  "int \<Rightarrow> identity \<Rightarrow> frame_event list \<Rightarrow> send_env \<Rightarrow> worker \<Rightarrow>
   worker \<times> effect list \<times> (time \<times> int16 list) list" where
  "relay_task chunk_ms speaker evs flush_env w =
     (let spc = samplesPerChunk chunk_ms;
          (r, st, fx1, sent1) = relay_frames spc speaker evs (acc_init, w)
      in case r of
           Threw e \<Rightarrow>
             (relay_finally speaker (snd st),
              fx1 @ [Log (Note ''Voice convert chunking error'')], sent1)
         | _ \<Rightarrow>
             (case relay_flush spc speaker flush_env st of
                (Threw e, w2, fx2, sent2) \<Rightarrow>
                  (relay_finally speaker w2,
                   fx1 @ fx2 @ [Log (Note ''Voice convert chunking error'')], sent1 @ sent2)
              | (_, w2, fx2, sent2) \<Rightarrow>
                  (relay_finally speaker w2,
                   fx1 @ fx2 @ [Log (Note ''Audio stream ended'')], sent1 @ sent2)))"

section \<open>Routes of participants (lines 416-444 and 494-555)\<close>

text \<open>
  \<open>startAudioStreamIfTrackExists\<close>: \<open>existing\<close> says whether the participant is in the
  room with an audio publication that has a track object.
\<close>

definition startAudioStreamIfTrackExists ::
  "bool \<Rightarrow> identity \<Rightarrow> worker \<Rightarrow> worker \<times> effect list" where
  "startAudioStreamIfTrackExists existing participantIdentity w =
     (if room w = None then (w, [])
      else if existing \<and> participantIdentity \<notin> activeS2S w then
        (let (w', fx) = startAudioStream True participantIdentity w
         in (w', Log (Note ''Starting audio stream for existing track'') # fx))
      else (w, []))"

definition setupRouteForParticipant ::
  "exn option \<Rightarrow> bool \<Rightarrow> identity \<Rightarrow> worker \<Rightarrow> worker \<times> effect list" where
  "setupRouteForParticipant pub existing participantIdentity w =
     (case participantVoices w participantIdentity of
        None \<Rightarrow> (w, [Log (Note ''No voice info found'')])
      | Some voiceInfo \<Rightarrow>
          let routeKey = ''from-'' @ participantIdentity;
              (src, trk, w1) = new_source_and_track w
          in (case publishTrack pub trk routeKey w1 of
                (Inl e, w2, fx2) \<Rightarrow> (w2, fx2 @ [Log (Note ''Error setting up route'')])
              | (Inr _, w2, fx2) \<Rightarrow>
                  (let w3 = w2\<lparr>routes := (routes w2)(participantIdentity \<mapsto>
                                \<lparr>rt_key = routeKey, rt_voiceId = voiceId voiceInfo,
                                 rt_source = Some src, rt_track = trk\<rparr>)\<rparr>;
                       (w4, fx4) = startAudioStreamIfTrackExists existing participantIdentity w3
                   in (w4, fx2 @ Log (Note ''Route created'') # fx4))))"

text \<open>
  The TrackSubscribed handler (lines 416-444) for an audio track: without a route it sets a
  timer that looks again after 1000 ms (\<open>retry_start\<close>).
\<close>

definition onTrackSubscribed :: "time \<Rightarrow> identity \<Rightarrow> worker \<Rightarrow> worker \<times> effect list" where
  "onTrackSubscribed now participantIdentity w =
     (if participantIdentity = [] \<or> startsWith participantIdentity ''audio-worker'' then (w, [])
      else
        (case routes w participantIdentity of
           None \<Rightarrow> (w\<lparr>timers := timers w @ [(now + 1000, RetryStart participantIdentity)]\<rparr>,
                     [Log (Note ''Audio track subscribed''), Log (Note ''Route not ready, waiting'')])
         | Some route \<Rightarrow>
             (let (w', fx) = startAudioStream True participantIdentity w
              in (w', Log (Note ''Audio track subscribed'') # fx))))"

definition retry_start :: "identity \<Rightarrow> worker \<Rightarrow> worker \<times> effect list" where
  "retry_start participantIdentity w =
     (case routes w participantIdentity of
        None \<Rightarrow> (w, [Log (Note ''Route still not available after retry'')])
      | Some retryRoute \<Rightarrow>
          (let (w', fx) = startAudioStream True participantIdentity w
           in (w', Log (Note ''Route ready, starting audio stream'') # fx)))"

text \<open>
  A timer that has come due: its callback runs and the timer is gone. The callback of the
  reconnect timer calls \<open>connectToRoom\<close>, which connects a new room object and then
  calls \<open>handleParticipantConnected\<close> for every participant present (lines 332-337).
\<close>

definition run_timer :: "timer_action \<Rightarrow> worker \<Rightarrow> worker \<times> effect list" where
  "run_timer act w =
     (case act of
        ForgetRecreated i \<Rightarrow> (w\<lparr>recentlyRecreated := recentlyRecreated w - {i}\<rparr>, [])
      | RetryStart i \<Rightarrow> retry_start i w
      | Reconnect \<Rightarrow> (w, [Log (Note ''Attempting to reconnect worker''), ConnectToRoom]))"

fun run_timers :: "(time \<times> timer_action) list \<Rightarrow> worker \<Rightarrow> worker \<times> effect list" where
  "run_timers [] w = (w, [])"
| "run_timers ((due, act) # ts) w =
     (let (w1, fx1) = run_timer act w; (w2, fx2) = run_timers ts w1 in (w2, fx1 @ fx2))"

definition fire_timers :: "time \<Rightarrow> worker \<Rightarrow> worker \<times> effect list" where
  "fire_timers now w =
     (let due = filter (\<lambda>(t, act). t \<le> now) (timers w);
          w0 = w\<lparr>timers := filter (\<lambda>(t, act). \<not> t \<le> now) (timers w)\<rparr>
      in run_timers due w0)"

section \<open>Participants joining and leaving, the room disconnecting (lines 363-392, 451-492, 606-633)\<close>

text \<open>
  \<open>loadParticipantVoice\<close>: \<open>selection\<close> is the voice selection that the application's
  server answers with, \<open>None\<close> when the request fails, is answered with an error, or the
  answer has none. \<open>handleParticipantConnected\<close> loads the voice and sets up the route.
\<close>

definition loadParticipantVoice ::
  "string option \<Rightarrow> identity \<Rightarrow> worker \<Rightarrow> worker \<times> effect list" where
  "loadParticipantVoice selection participantIdentity w =
     (let v = (case selection of
                 None \<Rightarrow> \<lparr>voiceId = ''pNInz6obpgDQGcFmaJgB'', voiceName = ''Adam (Default)''\<rparr>
               | Some voiceSelection \<Rightarrow>
                   if voiceSelection \<noteq> []
                   then \<lparr>voiceId = voiceSelection, voiceName = ''Custom Voice''\<rparr>
                   else \<lparr>voiceId = ''pNInz6obpgDQGcFmaJgB'', voiceName = ''Adam (Default)''\<rparr>)
      in (w\<lparr>participantVoices := (participantVoices w)(participantIdentity \<mapsto> v)\<rparr>,
          [GetVoice participantIdentity, Log (Note ''Voice assigned'')]))"

definition handleParticipantConnected ::
  "string option \<Rightarrow> exn option \<Rightarrow> bool \<Rightarrow> identity \<Rightarrow> worker \<Rightarrow> worker \<times> effect list" where
  "handleParticipantConnected selection pub existing participantIdentity w =
     (let (w1, fx1) = loadParticipantVoice selection participantIdentity w;
          (w2, fx2) = setupRouteForParticipant pub existing participantIdentity w1
      in (w2, fx1 @ fx2))"

text \<open>
  \<open>handleParticipantDisconnected\<close> (lines 606-633): it takes the identity out of
  \<open>activeS2S\<close>, sets the source of the route object to null, unpublishes its track and
  removes the route (an error of the unpublish call leaves the route in the registry, without
  its source), and removes the voice. It does not stop the relay loop of the identity: the
  loop ends when its stream ends.
\<close>

definition handleParticipantDisconnected ::
  "exn option \<Rightarrow> identity \<Rightarrow> worker \<Rightarrow> worker \<times> effect list" where
  "handleParticipantDisconnected unpub participantIdentity w =
     (let w1 = w\<lparr>activeS2S := activeS2S w - {participantIdentity}\<rparr>;
          (w2, fx) =
            (case routes w1 participantIdentity of
               None \<Rightarrow> (w1, [])
             | Some route \<Rightarrow>
                 (let w1n = w1\<lparr>routes := (routes w1)(participantIdentity \<mapsto>
                                    route\<lparr>rt_source := None\<rparr>)\<rparr>
                  in case unpublishTrack unpub (rt_track route) w1n of
                       (Inl e, wu, fxu) \<Rightarrow> (wu, fxu @ [Log (Note ''Error cleaning up route'')])
                     | (Inr _, wu, fxu) \<Rightarrow>
                         (wu\<lparr>routes := (routes wu)(participantIdentity := None)\<rparr>,
                          fxu @ [Log (Note ''Route cleaned up'')])))
      in (w2\<lparr>participantVoices := (participantVoices w2)(participantIdentity := None)\<rparr>,
          Log (Note ''Cleaning up resources'') # fx))"

text \<open>
  The Disconnected handler of the room (lines 363-392): it empties \<open>activeS2S\<close> and, when
  the connection was lost (\<open>reason === 1\<close>), replaces the reconnect timer by one that is
  due 5000 ms later. The routes stay in the registry, and no relay loop is stopped.
\<close>

definition onDisconnected :: "time \<Rightarrow> int \<Rightarrow> worker \<Rightarrow> worker \<times> effect list" where
  "onDisconnected now reason w =
     (let w1 = w\<lparr>activeS2S := {}\<rparr> in
      if reason = 1 then
        (w1\<lparr>timers := filter (\<lambda>(t, act). act \<noteq> Reconnect) (timers w1) @
                        [(now + 5000, Reconnect)]\<rparr>,
         [Log (Note ''Disconnected from room'')])
      else
        (w1, [Log (Note ''Disconnected from room''),
              Log (Note ''Not reconnecting - server initiated disconnect'')]))"

section \<open>Calls and responses of several speakers, interleaved\<close>

text \<open>
  Relay loops of different speakers run on one thread and interleave at their \<open>await\<close>s:
  between the request of one call of sendS2SChunk and its response, other calls begin and
  other responses arrive, and the quota timer ticks. An event is one uninterrupted piece.
\<close>

datatype event =
    Attempt time identity "int16 list"
  | Response send_env identity route
  | QuotaTimer time

fun event_time :: "event \<Rightarrow> time" where
  "event_time (Attempt now speaker int16) = now"
| "event_time (Response env speaker route) = env_now env"
| "event_time (QuotaTimer now) = now"

fun step :: "event \<Rightarrow> worker \<Rightarrow> worker \<times> effect list" where
  "step (Attempt now speaker int16) w =
     (case sendS2SChunk_begin now speaker int16 w of
        (Throws e, fx) \<Rightarrow> (w, fx @ snd (on_send_error speaker e))
      | (_, fx) \<Rightarrow> (w, fx))"
| "step (Response env speaker route) w =
     (case sendS2SChunk_response env speaker route w of
        (None, w', fx) \<Rightarrow> (w', fx)
      | (Some e, w', fx) \<Rightarrow> (w', fx @ snd (on_send_error speaker e)))"
| "step (QuotaTimer now) w = quota_reset_tick now w"

fun run :: "event list \<Rightarrow> worker \<Rightarrow> worker \<times> effect list" where
  "run [] w = (w, [])"
| "run (e # es) w =
     (let (w1, fx1) = step e w; (w2, fx2) = run es w1 in (w2, fx1 @ fx2))"

definition is_fetch :: "effect \<Rightarrow> bool" where
  "is_fetch x = (case x of Fetch v b \<Rightarrow> True | _ \<Rightarrow> False)"

section \<open>Notions used to state the properties\<close>

text \<open>
  The accumulator's count agrees with its buffers; the calls of sendS2SChunk are at least
  the minimum interval apart, the first one counted from \<open>prev\<close>; the samples a frame
  contributes to the accumulator.
\<close>

definition acc_ok :: "acc \<Rightarrow> bool" where
  "acc_ok a = (totalSamples a = length (concat (buffers a)))"

fun spaced :: "time \<Rightarrow> (time \<times> int16 list) list \<Rightarrow> bool" where
  "spaced prev [] = True"
| "spaced prev ((t, c) # rest) = (minChunkInterval \<le> t - prev \<and> spaced t rest)"

definition frame_samples :: "frame_event \<Rightarrow> int16 list" where
  "frame_samples ev = (case frame_data ev of None \<Rightarrow> [] | Some src \<Rightarrow> src)"

text \<open>
  The body text of a response as the handler reads it: the empty string when
  \<open>res.text()\<close> fails.
\<close>

definition body_text :: "response \<Rightarrow> string" where
  "body_text res = (case res_text res of None \<Rightarrow> [] | Some t \<Rightarrow> t)"

text \<open>
  The quota failures of the specification, in its words: a 401 or a 429 that carries a quota
  or rate-limit indicator. What a response carries is its body; the indicator is read as the
  word \<open>quota\<close> or the word \<open>rate\<close> in it.
\<close>

definition carries_indicator :: "response \<Rightarrow> bool" where
  "carries_indicator res =
     (str_includes (body_text res) ''quota'' \<or> str_includes (body_text res) ''rate'')"

definition quota_failure_as_specified :: "response \<Rightarrow> bool" where
  "quota_failure_as_specified res =
     ((res_status res = 401 \<or> res_status res = 429) \<and> carries_indicator res)"

text \<open>
  A response that reaches the lines marking a successful call (lines 904-909): a 2xx with a
  body that arrives and is not empty, for a route object whose source is still set.
\<close>

fun is_success_response :: "event \<Rightarrow> bool" where
  "is_success_response (Response env speaker route) =
     (case env_fetch env of
        FetchRejects e \<Rightarrow> False
      | FetchResolves res \<Rightarrow>
          res_ok res \<and> (case res_arrayBuffer res of Inl e \<Rightarrow> False | Inr buf \<Rightarrow> buf \<noteq> []) \<and>
          rt_source route \<noteq> None)"
| "is_success_response _ = False"

text \<open>The quota-exhausted state is set, to a reading not before \<open>T\<close>.\<close>

definition cooling :: "time \<Rightarrow> worker \<Rightarrow> bool" where
  "cooling T w = (case quotaExhausted w of None \<Rightarrow> False | Some q \<Rightarrow> T \<le> q)"

text \<open>The calls of \<open>captureFrame\<close> among the effects.\<close>

definition is_capture :: "effect \<Rightarrow> bool" where
  "is_capture x = (case x of CaptureFrame s f \<Rightarrow> True | _ \<Rightarrow> False)"

section \<open>Concrete workers, environments and frames\<close>

text \<open>A worker that has no room yet, and an environment in which the request fails.\<close>

definition idle_worker :: worker where
  "idle_worker =
     \<lparr>room = None, participantVoices = Map.empty, routes = Map.empty, activeS2S = {},
      quotaExhausted = None, lastSuccessfulCall = 0, recentlyRecreated = {}, published = [],
      next_handle = 0, timers = [], running = [], arithmetic = exact_arith\<rparr>"

definition quiet_env :: send_env where
  "quiet_env =
     \<lparr>env_start = 0, env_now = 0, env_fetch = FetchRejects (Exn ''TypeError'' ''fetch failed'' []),
      env_captures = [], env_unpublish = None, env_publish = None\<rparr>"

definition frame_at :: "time \<Rightarrow> int16 list \<Rightarrow> frame_event" where
  "frame_at t xs = \<lparr>frame_data = Some xs, frame_now = t, frame_env = quiet_env\<rparr>"

text \<open>
  A connected worker with two participants, A and B, each with a voice and a published
  route; the service's answer with a given status, body text and body bytes at a given time.
\<close>

definition route_A :: route where
  "route_A = \<lparr>rt_key = ''from-A'', rt_voiceId = ''v1'', rt_source = Some 0, rt_track = 1\<rparr>"

definition route_B :: route where
  "route_B = \<lparr>rt_key = ''from-B'', rt_voiceId = ''v2'', rt_source = Some 2, rt_track = 3\<rparr>"

definition speaking_worker :: worker where
  "speaking_worker =
     \<lparr>room = Some ConnConnected,
      participantVoices = [''A'' \<mapsto> \<lparr>voiceId = ''v1'', voiceName = ''Custom Voice''\<rparr>,
                           ''B'' \<mapsto> \<lparr>voiceId = ''v2'', voiceName = ''Custom Voice''\<rparr>],
      routes = [''A'' \<mapsto> route_A, ''B'' \<mapsto> route_B],
      activeS2S = {}, quotaExhausted = None, lastSuccessfulCall = 0, recentlyRecreated = {},
      published = [1, 3], next_handle = 4, timers = [], running = [],
      arithmetic = exact_arith\<rparr>"

definition response_env :: "time \<Rightarrow> nat \<Rightarrow> string \<Rightarrow> byte list \<Rightarrow> send_env" where
  "response_env t st txt body =
     \<lparr>env_start = t, env_now = t,
      env_fetch = FetchResolves \<lparr>res_status = st, res_text = Some txt, res_arrayBuffer = Inr body\<rparr>,
      env_captures = [], env_unpublish = None, env_publish = None\<rparr>"

text \<open>
  The error of a capture into an output channel that is gone; an environment in which the
  service answers 200 with the given body and the captures end as listed.
\<close>

definition invalid_state :: exn where
  "invalid_state = Exn ''Error'' ''InvalidState - failed to capture frame'' []"

definition failing_env :: "time \<Rightarrow> byte list \<Rightarrow> capture_result list \<Rightarrow> send_env" where
  "failing_env t body caps =
     \<lparr>env_start = t, env_now = t,
      env_fetch = FetchResolves \<lparr>res_status = 200, res_text = None, res_arrayBuffer = Inr body\<rparr>,
      env_captures = caps, env_unpublish = None, env_publish = None\<rparr>"

text \<open>
  A chunk of one full-scale sample, and one second of full-scale samples. Double precision
  rounds nothing on them up to the root: a sample divided by 32768 is -1, its square is 1,
  the sums are whole numbers, the mean is 1 and the root is 1. The level is 20 times the
  logarithm of the double next to 1.000000000001, far above the threshold.
\<close>

definition shout :: "int16 list" where
  "shout = [- 32768]"

definition loud_chunk :: "int16 list" where
  "loud_chunk = replicate 48000 (- 32768)"

text \<open>
  The worker after the first start of A's stream; the same worker after A has left the room
  (the unpublish call succeeding); and after A has joined again (the voice found, the track
  published, no audio track of A there yet) and A's audio track has been subscribed.
\<close>

definition started_worker :: worker where
  "started_worker = speaking_worker\<lparr>activeS2S := {''A''}, running := [''A'']\<rparr>"

definition left_worker :: worker where
  "left_worker = fst (handleParticipantDisconnected None ''A'' started_worker)"

definition rejoined_worker :: worker where
  "rejoined_worker =
     fst (onTrackSubscribed 3000 ''A''
            (fst (handleParticipantConnected (Some ''v1'') None False ''A'' left_worker)))"

text \<open>
  Two calls in flight, for A and for B; B's is answered 429 with a quota body at time 1000.
  Then A's call, issued before, is answered 200 at time 1500. A worker whose quota state was
  set at time 1000.
\<close>

definition trace_to_failure :: "event list" where
  "trace_to_failure =
     [Attempt 100 ''A'' shout, Attempt 150 ''B'' shout,
      Response (response_env 1000 429 ''quota_exceeded'' []) ''B'' route_B]"

definition late_success :: event where
  "late_success = Response (response_env 1500 200 [] [0, 0]) ''A'' route_A"

definition cooling_worker :: worker where
  "cooling_worker = speaking_worker\<lparr>quotaExhausted := Some 1000\<rparr>"

chapter \<open>Properties\<close>

section \<open>The WAV container\<close>

lemma length_le_bytes [simp]: "length (le_bytes n v) = n"
  by (induction n arbitrary: v) auto

lemma length_ascii [simp]: "length (ascii s) = length s"
  by (simp add: ascii_def)

lemma length_pcm_bytes [simp]: "length (pcm_bytes xs) = 2 * length xs"
  by (induction xs) (auto simp: pcm_bytes_def int16_bytes_def)

lemma read_le_bytes:
  "0 \<le> v \<Longrightarrow> v < 256 ^ n \<Longrightarrow> horner_sum uint 256 (le_bytes n v) = v"
proof (induction n arbitrary: v)
  case 0
  then show ?case by simp
next
  case (Suc n)
  have "0 \<le> v div 256" using Suc.prems by simp
  moreover have "v div 256 < 256 ^ n"
    using Suc.prems by (simp add: div_less_iff_less_mult mult.commute)
  ultimately have "horner_sum uint 256 (le_bytes n (v div 256)) = v div 256"
    by (rule Suc.IH)
  moreover have "uint (word_of_int v :: byte) = v mod 256"
    by (simp add: uint_word_of_int take_bit_eq_mod)
  ultimately show ?case by simp
qed

lemma write_bytes_seq:
  "length p = off \<Longrightarrow>
   write_bytes (p @ replicate (length bs + k) 0) bs off = p @ bs @ replicate k 0"
  by (simp add: write_bytes_def)

lemma write_ascii_seq:
  "length p = off \<Longrightarrow> m = length s + k \<Longrightarrow>
   write_ascii (p @ replicate m 0) s off = Inr (p @ ascii s @ replicate k 0)"
  using write_bytes_seq [of p off "ascii s" k] by (simp add: write_ascii_def)

lemma writeUIntLE_seq:
  "length p = off \<Longrightarrow> m = n + k \<Longrightarrow> 0 \<le> v \<Longrightarrow> v < 2 ^ (8 * n) \<Longrightarrow>
   writeUIntLE n (p @ replicate m 0) v off = Inr (p @ le_bytes n v @ replicate k 0)"
  using write_bytes_seq [of p off "le_bytes n v" k] by (simp add: writeUIntLE_def)

lemma copy_to_seq:
  "length p = off \<Longrightarrow> m = length src \<Longrightarrow>
   copy_to src (p @ replicate m 0) off = Inr (p @ src)"
  using write_bytes_seq [of p off src 0] by (simp add: copy_to_def)

text \<open>
  The fourteen writes of pcmToWavBuffer, one after the other: after each, the buffer is
  the part of the header written so far followed by the zeroes not yet overwritten. A
  value that does not fit its field makes its write throw, and nothing is returned.
\<close>

lemma writeUIntLE_range:
  "v < 0 \<or> 2 ^ (8 * n) \<le> v \<Longrightarrow> writeUIntLE n buf v off = Inl range_error"
  by (auto simp: writeUIntLE_def)

lemma pcmToWavBuffer_eq:
  "pcmToWavBuffer xs sr =
     (if fits_wav xs sr then Inr (wav_header sr (2 * int (length xs)) @ pcm_bytes xs)
      else Inl range_error)"
proof -
  define D where "D = int (length xs) * 2"
  define d where "d = nat D"
  have dD: "D = int d" "d = 2 * length xs" "D = 2 * int (length xs)"
    by (simp_all add: d_def D_def)
  have br: "sr * 1 * 16 div 8 = sr * 2" "(1::int) * 16 div 8 = 2"
    by simp_all
  have D0: "0 \<le> D" "0 \<le> 36 + D" by (simp_all add: dD(3))
  let ?z = "\<lambda>n. replicate n (0::byte)"
  define h1 :: "byte list" where "h1 = ascii ''RIFF''"
  define h2 where "h2 = h1 @ le_bytes 4 (36 + D)"
  define h3 where "h3 = h2 @ ascii ''WAVE''"
  define h4 where "h4 = h3 @ ascii ''fmt ''"
  define h5 where "h5 = h4 @ le_bytes 4 16"
  define h6 where "h6 = h5 @ le_bytes 2 1"
  define h7 where "h7 = h6 @ le_bytes 2 1"
  define h8 where "h8 = h7 @ le_bytes 4 sr"
  define h9 where "h9 = h8 @ le_bytes 4 (sr * 2)"
  define h10 where "h10 = h9 @ le_bytes 2 2"
  define h11 where "h11 = h10 @ le_bytes 2 16"
  define h12 where "h12 = h11 @ ascii ''data''"
  define h13 where "h13 = h12 @ le_bytes 4 D"
  note hs = h1_def h2_def h3_def h4_def h5_def h6_def h7_def h8_def h9_def h10_def h11_def
    h12_def h13_def
  have l: "length h1 = 4" "length h2 = 8" "length h3 = 12" "length h4 = 16" "length h5 = 20"
    "length h6 = 22" "length h7 = 24" "length h8 = 28" "length h9 = 32" "length h10 = 34"
    "length h11 = 36" "length h12 = 40" "length h13 = 44"
    by (simp_all add: hs)
  have s1: "write_ascii (alloc (44 + d)) ''RIFF'' 0 = Inr (h1 @ ?z (40 + d))"
    using write_ascii_seq [of "[]" 0 "44 + d" "''RIFF''" "40 + d"]
    by (simp add: alloc_def h1_def)
  have s2: "writeUInt32LE (h1 @ ?z (40 + d)) (36 + D) 4 = Inr (h2 @ ?z (36 + d))"
    if "36 + D < 2 ^ 32"
    using writeUIntLE_seq [of h1 4 "40 + d" 4 "36 + d" "36 + D"] l D0 that
    by (simp add: writeUInt32LE_def h2_def)
  have s3: "write_ascii (h2 @ ?z (36 + d)) ''WAVE'' 8 = Inr (h3 @ ?z (32 + d))"
    using write_ascii_seq [of h2 8 "36 + d" "''WAVE''" "32 + d"] l by (simp add: h3_def)
  have s4: "write_ascii (h3 @ ?z (32 + d)) ''fmt '' 12 = Inr (h4 @ ?z (28 + d))"
    using write_ascii_seq [of h3 12 "32 + d" "''fmt ''" "28 + d"] l by (simp add: h4_def)
  have s5: "writeUInt32LE (h4 @ ?z (28 + d)) 16 16 = Inr (h5 @ ?z (24 + d))"
    using writeUIntLE_seq [of h4 16 "28 + d" 4 "24 + d" 16] l
    by (simp add: writeUInt32LE_def h5_def)
  have s6: "writeUInt16LE (h5 @ ?z (24 + d)) 1 20 = Inr (h6 @ ?z (22 + d))"
    using writeUIntLE_seq [of h5 20 "24 + d" 2 "22 + d" 1] l
    by (simp add: writeUInt16LE_def h6_def)
  have s7: "writeUInt16LE (h6 @ ?z (22 + d)) 1 22 = Inr (h7 @ ?z (20 + d))"
    using writeUIntLE_seq [of h6 22 "22 + d" 2 "20 + d" 1] l
    by (simp add: writeUInt16LE_def h7_def)
  have s8: "writeUInt32LE (h7 @ ?z (20 + d)) sr 24 = Inr (h8 @ ?z (16 + d))"
    if "0 \<le> sr" "sr < 2 ^ 32"
    using writeUIntLE_seq [of h7 24 "20 + d" 4 "16 + d" sr] l that
    by (simp add: writeUInt32LE_def h8_def)
  have s9: "writeUInt32LE (h8 @ ?z (16 + d)) (sr * 2) 28 = Inr (h9 @ ?z (12 + d))"
    if "0 \<le> sr" "sr * 2 < 2 ^ 32"
    using writeUIntLE_seq [of h8 28 "16 + d" 4 "12 + d" "sr * 2"] l that
    by (simp add: writeUInt32LE_def h9_def)
  have s10: "writeUInt16LE (h9 @ ?z (12 + d)) 2 32 = Inr (h10 @ ?z (10 + d))"
    using writeUIntLE_seq [of h9 32 "12 + d" 2 "10 + d" 2] l
    by (simp add: writeUInt16LE_def h10_def)
  have s11: "writeUInt16LE (h10 @ ?z (10 + d)) 16 34 = Inr (h11 @ ?z (8 + d))"
    using writeUIntLE_seq [of h10 34 "10 + d" 2 "8 + d" 16] l
    by (simp add: writeUInt16LE_def h11_def)
  have s12: "write_ascii (h11 @ ?z (8 + d)) ''data'' 36 = Inr (h12 @ ?z (4 + d))"
    using write_ascii_seq [of h11 36 "8 + d" "''data''" "4 + d"] l by (simp add: h12_def)
  have s13: "writeUInt32LE (h12 @ ?z (4 + d)) D 40 = Inr (h13 @ ?z d)"
    if "36 + D < 2 ^ 32"
    using writeUIntLE_seq [of h12 40 "4 + d" 4 d D] l D0 that
    by (simp add: writeUInt32LE_def h13_def)
  have s14: "copy_to (pcm_bytes xs) (h13 @ ?z d) 44 = Inr (h13 @ pcm_bytes xs)"
    using copy_to_seq [of h13 44 d "pcm_bytes xs"] l by (simp add: dD)
  have f2: "writeUInt32LE b (36 + D) 4 = Inl range_error" if "\<not> 36 + D < 2 ^ 32" for b
    using that writeUIntLE_range [of "36 + D" 4 b 4] by (simp add: writeUInt32LE_def)
  have f8: "writeUInt32LE b sr 24 = Inl range_error" if "sr < 0 \<or> 2 ^ 32 \<le> sr" for b
    using that writeUIntLE_range [of sr 4 b 24] by (simp add: writeUInt32LE_def)
  have f9: "writeUInt32LE b (sr * 2) 28 = Inl range_error" if "2 ^ 32 \<le> sr * 2" for b
    using that writeUIntLE_range [of "sr * 2" 4 b 28] by (simp add: writeUInt32LE_def)
  have h: "h13 = wav_header sr D" by (simp add: hs wav_header_def)
  consider (big) "\<not> 36 + D < 2 ^ 32"
    | (rate) "36 + D < 2 ^ 32" "sr < 0 \<or> 2 ^ 32 \<le> sr"
    | (bytes) "36 + D < 2 ^ 32" "0 \<le> sr" "sr < 2 ^ 32" "2 ^ 32 \<le> sr * 2"
    | (fits) "36 + D < 2 ^ 32" "0 \<le> sr" "sr * 2 < 2 ^ 32"
    by linarith
  then show ?thesis
  proof cases
    case big
    have "pcmToWavBuffer xs sr = Inl range_error"
      unfolding pcmToWavBuffer_def Let_def D_def [symmetric] d_def [symmetric] br
      by (simp only: bind_e_def sum.case s1 f2 [OF big])
    then show ?thesis using big by (simp add: fits_wav_def dD(3))
  next
    case rate
    have "pcmToWavBuffer xs sr = Inl range_error"
      unfolding pcmToWavBuffer_def Let_def D_def [symmetric] d_def [symmetric] br
      by (simp only: bind_e_def sum.case s1 s2 [OF rate(1)] s3 s4 s5 s6 s7 f8 [OF rate(2)])
    then show ?thesis using rate by (auto simp: fits_wav_def)
  next
    case bytes
    have "pcmToWavBuffer xs sr = Inl range_error"
      unfolding pcmToWavBuffer_def Let_def D_def [symmetric] d_def [symmetric] br
      by (simp only: bind_e_def sum.case s1 s2 [OF bytes(1)] s3 s4 s5 s6 s7 s8 [OF bytes(2,3)]
          f9 [OF bytes(4)])
    then show ?thesis using bytes by (simp add: fits_wav_def)
  next
    case fits
    have sr32: "sr < 2 ^ 32" using fits by simp
    have "pcmToWavBuffer xs sr = Inr (h13 @ pcm_bytes xs)"
      unfolding pcmToWavBuffer_def Let_def D_def [symmetric] d_def [symmetric] br
      by (simp only: bind_e_def sum.case s1 s2 [OF fits(1)] s3 s4 s5 s6 s7 s8 [OF fits(2) sr32]
          s9 [OF fits(2,3)] s10 s11 s12 s13 [OF fits(1)] s14)
    then show ?thesis using fits h by (simp add: fits_wav_def dD(3))
  qed
qed

lemma pcmToWavBuffer_Inr:
  assumes "0 \<le> sr" "sr * 2 < 2 ^ 32" "36 + 2 * int (length xs) < 2 ^ 32"
  shows "pcmToWavBuffer xs sr = Inr (wav_header sr (2 * int (length xs)) @ pcm_bytes xs)"
  using assms by (simp add: pcmToWavBuffer_eq fits_wav_def)

lemma length_wav_header [simp]: "length (wav_header sr D) = 44"
  by (simp add: wav_header_def)

lemma readUIntLE_skip:
  "length a \<le> off \<Longrightarrow> readUIntLE n (a @ r) off = readUIntLE n r (off - length a)"
  by (simp add: readUIntLE_def)

lemma readUIntLE_here:
  "0 \<le> v \<Longrightarrow> v < 256 ^ n \<Longrightarrow> readUIntLE n (le_bytes n v @ r) 0 = v"
  by (simp add: readUIntLE_def read_le_bytes)

lemma tag_at_skip:
  "length a \<le> off \<Longrightarrow> tag_at (a @ r) off = tag_at r (off - length a)"
  by (simp add: tag_at_def)

lemma tag_at_here: "length t = 4 \<Longrightarrow> tag_at (t @ r) 0 = t"
  by (simp add: tag_at_def)

lemma high_byte: "uint (ucast (drop_bit 8 (w::int16)) :: byte) = uint w div 256"
proof -
  have "uint w < 2 ^ 16" using uint_bounded [of w] by simp
  then have "uint w div 256 < 256" by simp
  moreover have "0 \<le> uint w div 256" by (simp add: div_int_pos_iff)
  ultimately have "(uint w div 256) mod 256 = uint w div 256" by simp
  then show ?thesis
    by (simp add: unsigned_ucast_eq take_bit_eq_mod drop_bit_eq_div uint_div_distrib)
qed

lemma int16_bytes_read: "horner_sum uint 256 (int16_bytes w) = uint w"
proof -
  have "uint (ucast w :: byte) = uint w mod 256"
    by (simp add: unsigned_ucast_eq take_bit_eq_mod)
  moreover have "uint (ucast (drop_bit 8 w) :: byte) = uint w div 256"
    by (rule high_byte)
  ultimately show ?thesis by (simp add: int16_bytes_def)
qed

lemma pcm_bytes_nth:
  "i < length xs \<Longrightarrow> take 2 (drop (2 * i) (pcm_bytes xs)) = int16_bytes (xs ! i)"
proof (induction xs arbitrary: i)
  case Nil
  then show ?case by simp
next
  case (Cons x xs)
  show ?case
  proof (cases i)
    case 0
    then show ?thesis by (simp add: pcm_bytes_def int16_bytes_def)
  next
    case (Suc j)
    then have "take 2 (drop (2 * j) (pcm_bytes xs)) = int16_bytes (xs ! j)"
      using Cons by simp
    then show ?thesis using Suc by (simp add: pcm_bytes_def int16_bytes_def)
  qed
qed

lemma wav_header_fields:
  assumes "0 \<le> sr" "sr * 2 < 2 ^ 32" "0 \<le> D" "36 + D < 2 ^ 32"
  shows "tag_at (wav_header sr D @ r) 0 = ascii ''RIFF''"
    and "readUIntLE 4 (wav_header sr D @ r) 4 = 36 + D"
    and "tag_at (wav_header sr D @ r) 8 = ascii ''WAVE''"
    and "tag_at (wav_header sr D @ r) 12 = ascii ''fmt ''"
    and "readUIntLE 4 (wav_header sr D @ r) 16 = 16"
    and "readUIntLE 2 (wav_header sr D @ r) 20 = 1"
    and "readUIntLE 2 (wav_header sr D @ r) 22 = 1"
    and "readUIntLE 4 (wav_header sr D @ r) 24 = sr"
    and "readUIntLE 4 (wav_header sr D @ r) 28 = sr * 2"
    and "readUIntLE 2 (wav_header sr D @ r) 32 = 2"
    and "readUIntLE 2 (wav_header sr D @ r) 34 = 16"
    and "tag_at (wav_header sr D @ r) 36 = ascii ''data''"
    and "readUIntLE 4 (wav_header sr D @ r) 40 = D"
  using assms
  by (simp_all add: wav_header_def readUIntLE_skip readUIntLE_here tag_at_skip tag_at_here)

lemma wav_sample_read:
  "i < length xs \<Longrightarrow> readUIntLE 2 (wav_header sr D @ pcm_bytes xs) (44 + 2 * i) = uint (xs ! i)"
  by (simp add: readUIntLE_def pcm_bytes_nth int16_bytes_read)

text \<open>
  Claim C9. For every Int16 PCM input and every sample rate: when the sample rate, the
  byte rate and the sizes fit the 32-bit fields of the header, pcmToWavBuffer returns a
  buffer of 44 + 2 * length bytes with the tags RIFF, WAVE, "fmt " and data at offsets 0,
  8, 12 and 36; the RIFF chunk size 36 + dataSize; a format chunk of size 16 with format
  code 1 (PCM), 1 channel, the sample rate, the byte rate (sample rate * 1 channel * 16
  bits / 8), block align 2 and 16 bits per sample; the data size 2 * length; and from
  offset 44 on exactly the input samples, each as two bytes, low byte first. When they do
  not fit, a write throws a RangeError and no buffer is produced.
\<close>

theorem C9_wav_layout:
  "(fits_wav xs sr \<longrightarrow>
      (\<exists>buf. pcmToWavBuffer xs sr = Inr buf \<and>
           length buf = 44 + 2 * length xs \<and>
           tag_at buf 0 = ascii ''RIFF'' \<and>
           readUIntLE 4 buf 4 = 36 + 2 * int (length xs) \<and>
           tag_at buf 8 = ascii ''WAVE'' \<and>
           tag_at buf 12 = ascii ''fmt '' \<and>
           readUIntLE 4 buf 16 = 16 \<and>
           readUIntLE 2 buf 20 = 1 \<and>
           readUIntLE 2 buf 22 = 1 \<and>
           readUIntLE 4 buf 24 = sr \<and>
           readUIntLE 4 buf 28 = sr * 1 * 16 div 8 \<and>
           readUIntLE 2 buf 32 = 1 * 16 div 8 \<and>
           readUIntLE 2 buf 34 = 16 \<and>
           tag_at buf 36 = ascii ''data'' \<and>
           readUIntLE 4 buf 40 = 2 * int (length xs) \<and>
           drop 44 buf = pcm_bytes xs \<and>
           (\<forall>i<length xs. readUIntLE 2 buf (44 + 2 * i) = uint (xs ! i)))) \<and>
   (\<not> fits_wav xs sr \<longrightarrow> pcmToWavBuffer xs sr = Inl range_error)"
proof (intro conjI impI)
  assume "fits_wav xs sr"
  then have fit: "0 \<le> sr" "sr * 2 < 2 ^ 32" "36 + 2 * int (length xs) < 2 ^ 32"
    by (simp_all add: fits_wav_def)
  let ?D = "2 * int (length xs)"
  let ?buf = "wav_header sr ?D @ pcm_bytes xs"
  have D: "0 \<le> ?D" "36 + ?D < 2 ^ 32" using fit by simp_all
  note f = wav_header_fields [OF fit(1,2) D, of "pcm_bytes xs"]
  have "pcmToWavBuffer xs sr = Inr ?buf"
    using fit by (rule pcmToWavBuffer_Inr)
  moreover have "length ?buf = 44 + 2 * length xs" by simp
  moreover have "drop 44 ?buf = pcm_bytes xs" by simp
  moreover have "\<forall>i<length xs. readUIntLE 2 ?buf (44 + 2 * i) = uint (xs ! i)"
    by (simp add: wav_sample_read)
  moreover have "readUIntLE 4 ?buf 28 = sr * 1 * 16 div 8" using f(9) by simp
  moreover have "readUIntLE 2 ?buf 32 = 1 * 16 div 8" using f(10) by simp
  ultimately show "\<exists>buf. pcmToWavBuffer xs sr = Inr buf \<and>
           length buf = 44 + 2 * length xs \<and>
           tag_at buf 0 = ascii ''RIFF'' \<and>
           readUIntLE 4 buf 4 = 36 + 2 * int (length xs) \<and>
           tag_at buf 8 = ascii ''WAVE'' \<and>
           tag_at buf 12 = ascii ''fmt '' \<and>
           readUIntLE 4 buf 16 = 16 \<and>
           readUIntLE 2 buf 20 = 1 \<and>
           readUIntLE 2 buf 22 = 1 \<and>
           readUIntLE 4 buf 24 = sr \<and>
           readUIntLE 4 buf 28 = sr * 1 * 16 div 8 \<and>
           readUIntLE 2 buf 32 = 1 * 16 div 8 \<and>
           readUIntLE 2 buf 34 = 16 \<and>
           tag_at buf 36 = ascii ''data'' \<and>
           readUIntLE 4 buf 40 = 2 * int (length xs) \<and>
           drop 44 buf = pcm_bytes xs \<and>
           (\<forall>i<length xs. readUIntLE 2 buf (44 + 2 * i) = uint (xs ! i))"
    using f by blast
next
  assume "\<not> fits_wav xs sr"
  then show "pcmToWavBuffer xs sr = Inl range_error" by (simp add: pcmToWavBuffer_eq)
qed

theorem C9_wav_layout_witness:
  "fits_wav [1, - 2] 48000 \<and>
   (\<exists>buf. pcmToWavBuffer [1, - 2] 48000 = Inr buf \<and> length buf = 48 \<and>
     tag_at buf 0 = ascii ''RIFF'' \<and> readUIntLE 4 buf 4 = 40 \<and>
     readUIntLE 2 buf 20 = 1 \<and> readUIntLE 4 buf 24 = 48000 \<and>
     readUIntLE 4 buf 28 = 96000 \<and> readUIntLE 4 buf 40 = 4 \<and>
     drop 44 buf = [1, 0, 254, 255]) \<and>
   \<not> fits_wav [1, - 2] 2147483648 \<and>
   pcmToWavBuffer [1, - 2] 2147483648 = Inl range_error"
proof -
  have fit: "fits_wav [1, - 2] 48000" by (simp add: fits_wav_def)
  have unfit: "\<not> fits_wav [1, - 2] 2147483648" by (simp add: fits_wav_def)
  from C9_wav_layout [of "[1, - 2]" 48000] fit obtain buf where
    b: "pcmToWavBuffer [1, - 2] 48000 = Inr buf" "length buf = 44 + 2 * length [1, - 2 :: int16]"
      "tag_at buf 0 = ascii ''RIFF''" "readUIntLE 4 buf 4 = 36 + 2 * int (length [1, - 2 :: int16])"
      "readUIntLE 2 buf 20 = 1" "readUIntLE 4 buf 24 = 48000"
      "readUIntLE 4 buf 28 = 48000 * 1 * 16 div 8"
      "readUIntLE 4 buf 40 = 2 * int (length [1, - 2 :: int16])"
      "drop 44 buf = pcm_bytes [1, - 2]"
    by blast
  have "pcm_bytes [1, - 2] = [1, 0, 254, 255]"
    by (simp add: pcm_bytes_def int16_bytes_def)
  with b have "\<exists>buf. pcmToWavBuffer [1, - 2] 48000 = Inr buf \<and> length buf = 48 \<and>
     tag_at buf 0 = ascii ''RIFF'' \<and> readUIntLE 4 buf 4 = 40 \<and>
     readUIntLE 2 buf 20 = 1 \<and> readUIntLE 4 buf 24 = 48000 \<and>
     readUIntLE 4 buf 28 = 96000 \<and> readUIntLE 4 buf 40 = 4 \<and>
     drop 44 buf = [1, 0, 254, 255]"
    by (intro exI [of _ buf]) simp
  moreover have "pcmToWavBuffer [1, - 2] 2147483648 = Inl range_error"
    using C9_wav_layout [of "[1, - 2]" 2147483648] unfit by blast
  ultimately show ?thesis using fit unfit by blast
qed

section \<open>sendS2SChunk returns\<close>

lemma sendS2SChunk_returns: "fst (sendS2SChunk env speaker int16 w) = Inr ()"
  by (auto simp: sendS2SChunk_def on_send_error_def split: prod.splits decision.splits option.splits)

lemma sendS2SChunk_not_Inl: "sendS2SChunk env speaker m w \<noteq> (Inl e, w', fx)"
  using sendS2SChunk_returns [of env speaker m w] by auto

lemma sendS2SChunk_idle: "sendS2SChunk env speaker int16 idle_worker =
    (Inr (), idle_worker, [Log (Note ''Room not connected - skipping chunk'')])"
  by (simp add: sendS2SChunk_def sendS2SChunk_begin_def idle_worker_def)

section \<open>The accumulator of the relay loop\<close>

text \<open>
  Merging writes every buffer behind the one before it, so with the right count the merged
  array is the concatenation of the buffers.
\<close>

lemma merge_into_concat:
  "length z = length (concat bs) \<Longrightarrow> merge_into bs (p @ z) (length p) = Inr (p @ concat bs)"
proof (induction bs arbitrary: p z)
  case Nil
  then show ?case by simp
next
  case (Cons b bs)
  have fit: "\<not> length (p @ z) < length p + length b" using Cons.prems by simp
  have "set_at (p @ z) b (length p) = Inr ((p @ b) @ drop (length b) z)"
    using fit by (simp add: set_at_def)
  moreover have "length (drop (length b) z) = length (concat bs)"
    using Cons.prems by simp
  then have "merge_into bs ((p @ b) @ drop (length b) z) (length (p @ b)) = Inr ((p @ b) @ concat bs)"
    by (rule Cons.IH)
  ultimately show ?case by simp
qed

lemma merge_buffers_concat: "acc_ok a \<Longrightarrow> merge_buffers a = Inr (concat (buffers a))"
  using merge_into_concat [of "replicate (totalSamples a) 0" "buffers a" "[]"]
  by (simp add: merge_buffers_def acc_ok_def)

lemma relay_frame_skip:
  "frame_samples ev = [] \<Longrightarrow> relay_frame spc speaker ev (a, w) = (Next, (a, w), [], [])"
  by (auto simp: relay_frame_def frame_samples_def split: option.splits)

lemma relay_frame_hold:
  assumes "frame_data ev = Some src" "src \<noteq> []"
    and "\<not> (spc \<le> totalSamples a + length src \<and>
             minChunkInterval \<le> frame_now ev - lastChunkTime a)"
  shows "relay_frame spc speaker ev (a, w) =
     (Next, (a\<lparr>buffers := buffers a @ [src], totalSamples := totalSamples a + length src\<rparr>, w),
      [], [])"
  using assms by (auto simp: relay_frame_def Let_def)

lemma relay_frame_send:
  assumes ok: "acc_ok a" and d: "frame_data ev = Some src" "src \<noteq> []"
    and c: "spc \<le> totalSamples a + length src"
      "minChunkInterval \<le> frame_now ev - lastChunkTime a"
  shows "relay_frame spc speaker ev (a, w) =
     (Next,
      (\<lparr>buffers = [], totalSamples = 0, lastChunkTime = frame_now ev\<rparr>,
       fst (snd (sendS2SChunk (frame_env ev) speaker (concat (buffers a) @ src) w))),
      snd (snd (sendS2SChunk (frame_env ev) speaker (concat (buffers a) @ src) w)),
      [(frame_now ev, concat (buffers a) @ src)])"
proof -
  let ?a1 = "a\<lparr>buffers := buffers a @ [src], totalSamples := totalSamples a + length src\<rparr>"
  have "acc_ok ?a1" using ok by (simp add: acc_ok_def)
  then have m: "merge_buffers ?a1 = Inr (concat (buffers a) @ src)"
    using merge_buffers_concat [of ?a1] by simp
  obtain r w' fx where
    s: "sendS2SChunk (frame_env ev) speaker (concat (buffers a) @ src) w = (r, w', fx)"
    by (cases "sendS2SChunk (frame_env ev) speaker (concat (buffers a) @ src) w") auto
  have "r = Inr ()"
    using sendS2SChunk_returns [of "frame_env ev" speaker "concat (buffers a) @ src" w] s
    by simp
  then show ?thesis
    using d c m s by (simp add: relay_frame_def Let_def)
qed

lemma relay_frames_acc:
  assumes "acc_ok a"
  shows "\<exists>a' w' fx sent.
           relay_frames spc speaker evs (a, w) = (Next, (a', w'), fx, sent) \<and> acc_ok a' \<and>
           concat (map snd sent) @ concat (buffers a') =
             concat (buffers a) @ concat (map frame_samples evs) \<and>
           (\<forall>tc\<in>set sent. spc \<le> length (snd tc)) \<and>
           spaced (lastChunkTime a) sent"
  using assms
proof (induction evs arbitrary: a w)
  case Nil
  then show ?case by simp
next
  case (Cons ev evs)
  have step: "\<exists>a1 w1 fx1 sent1.
      relay_frame spc speaker ev (a, w) = (Next, (a1, w1), fx1, sent1) \<and> acc_ok a1 \<and>
      concat (map snd sent1) @ concat (buffers a1) = concat (buffers a) @ frame_samples ev \<and>
      (\<forall>tc\<in>set sent1. spc \<le> length (snd tc)) \<and>
      (\<forall>rest. spaced (lastChunkTime a1) rest \<longrightarrow> spaced (lastChunkTime a) (sent1 @ rest))"
  proof (cases "frame_samples ev = []")
    case True
    then show ?thesis using Cons.prems relay_frame_skip [of ev spc speaker a w] by simp
  next
    case False
    then obtain src where d: "frame_data ev = Some src" "src \<noteq> []" "frame_samples ev = src"
      by (auto simp: frame_samples_def split: option.splits)
    show ?thesis
    proof (cases "spc \<le> totalSamples a + length src \<and>
                  minChunkInterval \<le> frame_now ev - lastChunkTime a")
      case False
      have "acc_ok (a\<lparr>buffers := buffers a @ [src], totalSamples := totalSamples a + length src\<rparr>)"
        using Cons.prems by (simp add: acc_ok_def)
      then show ?thesis
        using relay_frame_hold [OF d(1,2) False, of speaker w] d(3) by simp
    next
      case True
      have len: "spc \<le> length (concat (buffers a) @ src)"
        using True Cons.prems by (simp add: acc_ok_def)
      have "acc_ok \<lparr>buffers = [], totalSamples = 0, lastChunkTime = frame_now ev\<rparr>"
        by (simp add: acc_ok_def)
      then show ?thesis
        using relay_frame_send [OF Cons.prems d(1,2), of spc speaker w] True d(3) len by simp
    qed
  qed
  then obtain a1 w1 fx1 sent1 where
    s1: "relay_frame spc speaker ev (a, w) = (Next, (a1, w1), fx1, sent1)" and ok1: "acc_ok a1"
    and c1: "concat (map snd sent1) @ concat (buffers a1) = concat (buffers a) @ frame_samples ev"
    and l1: "\<forall>tc\<in>set sent1. spc \<le> length (snd tc)"
    and sp1: "\<forall>rest. spaced (lastChunkTime a1) rest \<longrightarrow> spaced (lastChunkTime a) (sent1 @ rest)"
    by blast
  from Cons.IH [OF ok1, of w1] obtain a' w' fx sent where
    s2: "relay_frames spc speaker evs (a1, w1) = (Next, (a', w'), fx, sent)" and ok2: "acc_ok a'"
    and c2: "concat (map snd sent) @ concat (buffers a') =
               concat (buffers a1) @ concat (map frame_samples evs)"
    and l2: "\<forall>tc\<in>set sent. spc \<le> length (snd tc)"
    and sp2: "spaced (lastChunkTime a1) sent"
    by blast
  have "relay_frames spc speaker (ev # evs) (a, w) = (Next, (a', w'), fx1 @ fx, sent1 @ sent)"
    using s1 s2 by simp
  moreover have "concat (map snd (sent1 @ sent)) @ concat (buffers a') =
      concat (buffers a) @ concat (map frame_samples (ev # evs))"
  proof -
    have "concat (map snd (sent1 @ sent)) @ concat (buffers a') =
        concat (map snd sent1) @ (concat (map snd sent) @ concat (buffers a'))" by simp
    also have "\<dots> = (concat (map snd sent1) @ concat (buffers a1)) @ concat (map frame_samples evs)"
      using c2 by simp
    also have "\<dots> = concat (buffers a) @ concat (map frame_samples (ev # evs))"
      using c1 by simp
    finally show ?thesis .
  qed
  moreover have "\<forall>tc\<in>set (sent1 @ sent). spc \<le> length (snd tc)" using l1 l2 by auto
  moreover have "spaced (lastChunkTime a) (sent1 @ sent)" using sp1 sp2 by blast
  ultimately show ?case using ok2 by blast
qed

lemma relay_frame_sent:
  assumes "acc_ok a" "frame_data ev = Some src" "src \<noteq> []"
  shows "snd (snd (snd (relay_frame spc speaker ev (a, w)))) =
        (if spc \<le> totalSamples a + length src \<and>
            minChunkInterval \<le> frame_now ev - lastChunkTime a
         then [(frame_now ev, concat (buffers a) @ src)] else [])"
proof (cases "spc \<le> totalSamples a + length src \<and>
              minChunkInterval \<le> frame_now ev - lastChunkTime a")
  case True
  then show ?thesis using assms relay_frame_send [of a ev src spc speaker w] by simp
next
  case False
  then show ?thesis using assms relay_frame_hold [of ev src spc a speaker w] by simp
qed

text \<open>
  Claim C3. For every sequence of frames pushed into a speaker's accumulator (frames
  without samples are skipped), from the empty accumulator: the loop consumes the whole
  sequence; every chunk handed to sendS2SChunk holds at least the configured chunk size of
  samples; the calls are at least the minimum interval (200 ms) apart, the first counted
  from the initial \<open>lastChunkTime = 0\<close>; and the chunks sent, in order, followed by what
  is still buffered, are exactly the samples of the frames in arrival order: none
  duplicated, none dropped. At a single frame, a chunk is sent if and only if the buffered
  samples with this frame reach the chunk size and the interval has elapsed, and the chunk
  is then exactly the buffered samples followed by the frame's.
\<close>

theorem C3_accumulator:
  "(\<exists>a' w' fx sent.
      relay_frames spc speaker evs (acc_init, w) = (Next, (a', w'), fx, sent) \<and>
      concat (map snd sent) @ concat (buffers a') = concat (map frame_samples evs) \<and>
      totalSamples a' = length (concat (buffers a')) \<and>
      (\<forall>tc\<in>set sent. spc \<le> length (snd tc)) \<and>
      spaced 0 sent) \<and>
   (\<forall>a src ev. acc_ok a \<and> frame_data ev = Some src \<and> src \<noteq> [] \<longrightarrow>
      snd (snd (snd (relay_frame spc speaker ev (a, w)))) =
        (if spc \<le> totalSamples a + length src \<and>
            minChunkInterval \<le> frame_now ev - lastChunkTime a
         then [(frame_now ev, concat (buffers a) @ src)] else []))"
proof -
  have "acc_ok acc_init" by (simp add: acc_ok_def acc_init_def)
  from relay_frames_acc [OF this, of spc speaker evs w]
  have "\<exists>a' w' fx sent.
      relay_frames spc speaker evs (acc_init, w) = (Next, (a', w'), fx, sent) \<and>
      concat (map snd sent) @ concat (buffers a') = concat (map frame_samples evs) \<and>
      totalSamples a' = length (concat (buffers a')) \<and>
      (\<forall>tc\<in>set sent. spc \<le> length (snd tc)) \<and>
      spaced 0 sent"
    by (auto simp: acc_init_def acc_ok_def)
  then show ?thesis using relay_frame_sent by blast
qed

theorem C3_accumulator_witness:
  "(\<exists>a' w' fx.
      relay_frames 4 ''A'' [frame_at 1000 [1, 2], frame_at 1010 [3, 4], frame_at 1100 [5, 6, 7, 8],
          frame_at 1300 [9], frame_at 1310 [10]] (acc_init, idle_worker) =
        (Next, (a', w'), fx, [(1010, [1, 2, 3, 4]), (1300, [5, 6, 7, 8, 9])]) \<and>
      buffers a' = [[10]]) \<and>
   acc_ok acc_init \<and>
   snd (snd (snd (relay_frame 4 ''A'' (frame_at 1000 [1, 2, 3, 4]) (acc_init, idle_worker)))) =
     [(1000, [1, 2, 3, 4])]"
proof -
  have ok: "acc_ok acc_init" by (simp add: acc_ok_def acc_init_def)
  have m: "\<And>xs t. merge_buffers \<lparr>buffers = xs, totalSamples = length (concat xs), lastChunkTime = t\<rparr> =
      Inr (concat xs)"
    using merge_buffers_concat by (simp add: acc_ok_def)
  have "snd (snd (snd (relay_frame 4 ''A'' (frame_at 1000 [1, 2, 3, 4]) (acc_init, idle_worker)))) =
     [(1000, [1, 2, 3, 4])]"
    using C3_accumulator [of 4 "''A''" "[]" idle_worker, THEN conjunct2, rule_format,
        where a = acc_init and src = "[1, 2, 3, 4]" and ev = "frame_at 1000 [1, 2, 3, 4]"] ok
    by (simp add: frame_at_def acc_init_def minChunkInterval_def)
  moreover have "relay_frames 4 ''A'' [frame_at 1000 [1, 2], frame_at 1010 [3, 4],
          frame_at 1100 [5, 6, 7, 8], frame_at 1300 [9], frame_at 1310 [10]] (acc_init, idle_worker) =
        (Next, (\<lparr>buffers = [[10]], totalSamples = 1, lastChunkTime = 1300\<rparr>, idle_worker),
         [Log (Note ''Room not connected - skipping chunk''),
          Log (Note ''Room not connected - skipping chunk'')],
         [(1010, [1, 2, 3, 4]), (1300, [5, 6, 7, 8, 9])])"
    using m [of "[[1, 2], [3, 4]]" 0] m [of "[[5, 6, 7, 8], [9]]" 1010]
    by (simp add: relay_frame_def frame_at_def acc_init_def minChunkInterval_def
        sendS2SChunk_idle)
  ultimately show ?thesis using ok by simp
qed

section \<open>No exception leaves sendS2SChunk\<close>

text \<open>
  Claim C10. The promise returned by sendS2SChunk never rejects: for every environment,
  speaker, chunk and worker the call returns normally. So no iteration of the relay loop
  takes the \<open>break\<close> of the InvalidState branch of its catch block, and the loop over
  any sequence of frames runs to the end of the sequence.
\<close>

theorem C10_never_throws:
  "fst (sendS2SChunk env speaker int16 w) = Inr () \<and>
   fst (relay_frame spc speaker ev st) \<noteq> Broke \<and>
   fst (relay_frames spc speaker evs (acc_init, w)) = Next"
proof (intro conjI)
  show "fst (sendS2SChunk env speaker int16 w) = Inr ()" by (rule sendS2SChunk_returns)
next
  obtain a w0 where st: "st = (a, w0)" by (cases st)
  show "fst (relay_frame spc speaker ev st) \<noteq> Broke"
  proof (cases "frame_data ev")
    case None
    then show ?thesis by (simp add: relay_frame_def st)
  next
    case (Some src)
    then show ?thesis
      by (auto simp: relay_frame_def st Let_def sendS2SChunk_not_Inl split: sum.splits prod.splits)
  qed
next
  have "acc_ok acc_init" by (simp add: acc_ok_def acc_init_def)
  from relay_frames_acc [OF this, of spc speaker evs w]
  show "fst (relay_frames spc speaker evs (acc_init, w)) = Next" by auto
qed

theorem C10_never_throws_witness:
  "fst (sendS2SChunk quiet_env ''A'' [1, 2] idle_worker) = Inr () \<and>
   fst (relay_frame 4 ''A'' (frame_at 1000 [1, 2, 3, 4]) (acc_init, idle_worker)) \<noteq> Broke \<and>
   fst (relay_frames 4 ''A'' [frame_at 1000 [1, 2], frame_at 1010 [3, 4]] (acc_init, idle_worker)) =
     Next"
  using C10_never_throws [of quiet_env "''A''" "[1, 2]" idle_worker 4
      "frame_at 1000 [1, 2, 3, 4]" "(acc_init, idle_worker)"
      "[frame_at 1000 [1, 2], frame_at 1010 [3, 4]]"]
  by simp

section \<open>The silence gate\<close>

lemma rms_silent: "rmsDbFS exact_arith [0, 0, 0] = - 120"
proof -
  have "log 10 (1000000000000::real) = 12"
    using log_nat_power [of 10 10 12] by simp
  then show ?thesis by (simp add: rmsDbFS_def exact_arith_def log_recip)
qed

lemma rms_loud: "0 \<le> rmsDbFS exact_arith [- 32768]"
  by (simp add: rmsDbFS_def exact_arith_def le_max_iff_disj)

lemma begin_silent:
  "rmsDbFS (arithmetic w) int16 < SILENCE_DB \<Longrightarrow>
   \<exists>fx. sendS2SChunk_begin now speaker int16 w = (Skip, fx) \<and> (\<forall>x\<in>set fx. \<not> is_fetch x)"
  by (auto simp: sendS2SChunk_begin_def is_fetch_def split: option.splits)

text \<open>
  Claim C2. For every PCM chunk whose level, as \<open>rmsDbFS\<close> computes it in the arithmetic
  of the runtime, whatever that arithmetic rounds, is below the silence threshold (-55 dB):
  sendS2SChunk returns normally, leaves the worker as it was and issues no request to the
  transformation service, whatever the state of the worker and whatever the service would
  have answered.
\<close>

theorem C2_silence_skips:
  assumes "rmsDbFS (arithmetic w) int16 < SILENCE_DB"
  shows "fst (sendS2SChunk env speaker int16 w) = Inr () \<and>
         fst (snd (sendS2SChunk env speaker int16 w)) = w \<and>
         (\<forall>x\<in>set (snd (snd (sendS2SChunk env speaker int16 w))). \<not> is_fetch x)"
proof -
  from begin_silent [OF assms, of "env_start env" speaker] obtain fx where
    "sendS2SChunk_begin (env_start env) speaker int16 w = (Skip, fx)" "\<forall>x\<in>set fx. \<not> is_fetch x"
    by blast
  then show ?thesis by (simp add: sendS2SChunk_def)
qed

theorem C2_silence_skips_witness:
  "rmsDbFS (arithmetic speaking_worker) [0, 0, 0] < SILENCE_DB \<and>
   fst (sendS2SChunk (response_env 1000 200 [] [0, 0]) ''A'' [0, 0, 0] speaking_worker) = Inr () \<and>
   fst (snd (sendS2SChunk (response_env 1000 200 [] [0, 0]) ''A'' [0, 0, 0] speaking_worker)) =
     speaking_worker \<and>
   list_all (\<lambda>x. \<not> is_fetch x)
     (snd (snd (sendS2SChunk (response_env 1000 200 [] [0, 0]) ''A'' [0, 0, 0] speaking_worker)))"
proof -
  have a: "arithmetic speaking_worker = exact_arith" by (simp add: speaking_worker_def)
  have h: "rmsDbFS (arithmetic speaking_worker) [0, 0, 0] < SILENCE_DB"
    unfolding a by (simp add: rms_silent SILENCE_DB_def)
  from C2_silence_skips [OF h, of "response_env 1000 200 [] [0, 0]" "''A''"] h
  show ?thesis by (simp add: list_all_iff)
qed

text \<open>A loud chunk passes the gate and the request is issued.\<close>

lemma rms_shout:
  "\<not> rmsDbFS exact_arith shout < SILENCE_DB" "\<not> rmsDbFS exact_arith shout < - 55"
  using rms_loud by (simp_all add: shout_def SILENCE_DB_def)

lemma wav_shout: "pcmToWavBuffer shout VOICE_SAMPLE_RATE = Inr (wav_header 48000 2 @ pcm_bytes shout)"
  using pcmToWavBuffer_Inr [of 48000 shout] by (simp add: VOICE_SAMPLE_RATE_def shout_def)

lemma attempt_speaking:
  "routes w speaker = Some route \<Longrightarrow> rt_source route \<noteq> None \<Longrightarrow> rt_voiceId route \<noteq> [] \<Longrightarrow>
   room w = Some ConnConnected \<Longrightarrow> \<not> truthy_time (quotaExhausted w) \<Longrightarrow>
   arithmetic w = exact_arith \<Longrightarrow>
   step (Attempt now speaker shout) w =
     (w, [Log (Note ''Processing audio chunk''),
          Fetch (rt_voiceId route) (wav_header 48000 2 @ pcm_bytes shout)])"
  using rms_shout
  by (auto simp: sendS2SChunk_begin_def wav_shout truthy_time_def split: option.splits)

lemma foldl_add_replicate:
  "foldl (\<lambda>acc x. acc + f x) (a::real) (replicate n y) = a + real n * f y"
  by (induction n arbitrary: a) (simp_all add: algebra_simps)

lemma rms_loud_chunk: "0 \<le> rmsDbFS exact_arith loud_chunk"
  by (simp add: rmsDbFS_def exact_arith_def loud_chunk_def le_max_iff_disj Let_def
      foldl_add_replicate)

lemma wav_loud_chunk:
  "pcmToWavBuffer loud_chunk VOICE_SAMPLE_RATE =
     Inr (wav_header 48000 96000 @ pcm_bytes loud_chunk)"
  using pcmToWavBuffer_Inr [of 48000 loud_chunk]
  by (simp add: VOICE_SAMPLE_RATE_def loud_chunk_def)

lemma attempt_started:
  "step (Attempt 1000 ''A'' loud_chunk) started_worker =
     (started_worker,
      [Log (Note ''Processing audio chunk''),
       Fetch ''v1'' (wav_header 48000 96000 @ pcm_bytes loud_chunk)])"
  using rms_loud_chunk
  by (simp add: sendS2SChunk_begin_def started_worker_def speaking_worker_def route_A_def
      SILENCE_DB_def wav_loud_chunk)

section \<open>Responses that are not 2xx\<close>

lemma includes_prefix:
  "str_includes s (a @ b) \<Longrightarrow> str_includes s a"
proof (induction s)
  case Nil
  then show ?case by simp
next
  case (Cons c cs)
  then show ?case by (auto dest: append_prefixD)
qed

lemma includes_quota_exceeded:
  "(str_includes s ''quota_exceeded'' \<or> str_includes s ''quota'') = str_includes s ''quota''"
  using includes_prefix [of s "''quota''" "''_exceeded''"] by auto

text \<open>
  Claim C8, as amended. For every response that is not 2xx: every 429, with or without an
  indicator in its body, and every 401 whose body contains the word \<open>quota\<close>, sets the
  quota-exhausted state to the current clock reading, and the handler returns with nothing
  but one line, about the pause when the body contains \<open>quota\<close> and about the rate limit
  otherwise; every other response that is not 2xx is logged with its status and body text,
  the chunk is dropped (nothing is captured), and the worker, its quota-exhausted state
  included, is left as it was.
\<close>

theorem C8_non_2xx:
  assumes "env_fetch env = FetchResolves res" and "\<not> res_ok res"
  shows "(res_status res = 429 \<or>
          (res_status res = 401 \<and> str_includes (body_text res) ''quota'') \<longrightarrow>
            sendS2SChunk_response env speaker route w =
              (None, w\<lparr>quotaExhausted := Some (env_now env)\<rparr>,
               [Log (if str_includes (body_text res) ''quota'' then QuotaExhaustedPausing
                     else RateLimitedBackingOff)])) \<and>
         (\<not> (res_status res = 429 \<or>
             (res_status res = 401 \<and> str_includes (body_text res) ''quota'')) \<longrightarrow>
            sendS2SChunk_response env speaker route w =
              (None, w, [Log (ServiceError (res_status res) (body_text res))]))"
  using assms
  by (auto simp: sendS2SChunk_response_def body_text_def includes_quota_exceeded Let_def)

theorem C8_non_2xx_witness:
  "sendS2SChunk_response (response_env 5000 429 ''quota_exceeded'' []) ''B'' route_B
      speaking_worker =
     (None, speaking_worker\<lparr>quotaExhausted := Some 5000\<rparr>, [Log QuotaExhaustedPausing]) \<and>
   sendS2SChunk_response (response_env 5000 500 ''Internal Server Error'' []) ''B'' route_B
      speaking_worker =
     (None, speaking_worker, [Log (ServiceError 500 ''Internal Server Error'')])"
proof -
  let ?q = "response_env 5000 429 ''quota_exceeded'' []"
  let ?e = "response_env 5000 500 ''Internal Server Error'' []"
  have q: "env_fetch ?q = FetchResolves \<lparr>res_status = 429,
      res_text = Some ''quota_exceeded'', res_arrayBuffer = Inr []\<rparr>"
    by (simp add: response_env_def)
  have e: "env_fetch ?e = FetchResolves \<lparr>res_status = 500,
      res_text = Some ''Internal Server Error'', res_arrayBuffer = Inr []\<rparr>"
    by (simp add: response_env_def)
  show ?thesis
    using C8_non_2xx [OF q, of "''B''" route_B speaking_worker]
      C8_non_2xx [OF e, of "''B''" route_B speaking_worker]
    by (simp add: res_ok_def body_text_def response_env_def)
qed

text \<open>
  Claim C8 as stated fails. A 429 whose body is \<open>slow down\<close>, and a 429 with an empty body,
  carry no quota or rate-limit indicator, so by the claim they are generic service errors
  that leave the quota-exhausted state unchanged. The handler takes the branch of line 820:
  it sets the state and logs the rate limit, not the status and body.
\<close>

theorem C8_bare_429_counterexample:
  "\<not> quota_failure_as_specified
       \<lparr>res_status = 429, res_text = Some ''slow down'', res_arrayBuffer = Inr []\<rparr> \<and>
   \<not> quota_failure_as_specified
       \<lparr>res_status = 429, res_text = Some [], res_arrayBuffer = Inr []\<rparr> \<and>
   quotaExhausted speaking_worker = None \<and>
   sendS2SChunk_response (response_env 5000 429 ''slow down'' []) ''B'' route_B speaking_worker =
     (None, speaking_worker\<lparr>quotaExhausted := Some 5000\<rparr>, [Log RateLimitedBackingOff]) \<and>
   sendS2SChunk_response (response_env 5000 429 [] []) ''B'' route_B speaking_worker =
     (None, speaking_worker\<lparr>quotaExhausted := Some 5000\<rparr>, [Log RateLimitedBackingOff])"
  by (simp add: quota_failure_as_specified_def carries_indicator_def body_text_def
      sendS2SChunk_response_def response_env_def res_ok_def speaking_worker_def)

section \<open>The flush at the end of the stream\<close>

text \<open>
  Property X2. At the end of the stream sendS2SChunk is called once more, with exactly the
  buffered samples, if and only if twice their number exceeds the chunk size: the tail is
  flushed when it is longer than half a chunk and discarded when it is half a chunk or
  shorter.
\<close>

theorem flush_more_than_half:
  assumes "acc_ok a"
  shows "snd (snd (snd (relay_flush spc speaker env (a, w)))) =
           (if spc < 2 * totalSamples a then [(env_start env, concat (buffers a))] else [])"
  using merge_buffers_concat [OF assms] sendS2SChunk_not_Inl [of env speaker "concat (buffers a)" w]
  by (auto simp: relay_flush_def split: prod.splits sum.splits)

theorem flush_more_than_half_witness:
  "acc_ok \<lparr>buffers = [[1, 2], [3]], totalSamples = 3, lastChunkTime = 0\<rparr> \<and>
   snd (snd (snd (relay_flush 4 ''A'' quiet_env
     (\<lparr>buffers = [[1, 2], [3]], totalSamples = 3, lastChunkTime = 0\<rparr>, idle_worker)))) =
     [(0, [1, 2, 3])] \<and>
   snd (snd (snd (relay_flush 6 ''A'' quiet_env
     (\<lparr>buffers = [[1, 2], [3]], totalSamples = 3, lastChunkTime = 0\<rparr>, idle_worker)))) = []"
proof -
  have ok: "acc_ok \<lparr>buffers = [[1, 2], [3]], totalSamples = 3, lastChunkTime = 0\<rparr>"
    by (simp add: acc_ok_def)
  show ?thesis
    using flush_more_than_half [OF ok, of 4 "''A''" quiet_env idle_worker]
      flush_more_than_half [OF ok, of 6 "''A''" quiet_env idle_worker] ok
    by (simp add: quiet_env_def)
qed

text \<open>
  Claim C4, at the input where the code leaves it. With the default chunk size (48000
  samples) a stream of 72000 samples, a frame of 48000 and a frame of 24000, sends the first
  chunk and ends with 24000 samples buffered: exactly half a chunk. The claim (and the
  comment of line 728, "at least half a chunk") has the tail flushed; the code compares
  strictly and discards it: the only call of sendS2SChunk is the one for the first
  chunk.
\<close>

theorem C4_exactly_half_not_flushed:
  "samplesPerChunk 1000 = 48000 \<and>
   snd (snd (relay_task 1000 ''A''
       [frame_at 1000 (replicate 48000 1), frame_at 1500 (replicate 24000 2)]
       quiet_env idle_worker)) =
     [(1000, replicate 48000 1)]"
proof -
  have spc: "samplesPerChunk 1000 = 48000"
    by (simp add: samplesPerChunk_def VOICE_SAMPLE_RATE_def)
  have m: "merge_buffers \<lparr>buffers = [replicate 48000 1], totalSamples = 48000, lastChunkTime = 0\<rparr> =
      Inr (replicate 48000 1)"
    using merge_buffers_concat [of "\<lparr>buffers = [replicate 48000 1], totalSamples = 48000,
      lastChunkTime = 0\<rparr>"] by (simp add: acc_ok_def)
  have f: "relay_frames 48000 ''A''
       [frame_at 1000 (replicate 48000 1), frame_at 1500 (replicate 24000 2)]
       (acc_init, idle_worker) =
     (Next, (\<lparr>buffers = [replicate 24000 2], totalSamples = 24000, lastChunkTime = 1000\<rparr>,
             idle_worker),
      [Log (Note ''Room not connected - skipping chunk'')], [(1000, replicate 48000 1)])"
    using m
    by (simp add: relay_frame_def frame_at_def acc_init_def minChunkInterval_def
        sendS2SChunk_idle)
  have "snd (snd (relay_task 1000 ''A''
       [frame_at 1000 (replicate 48000 1), frame_at 1500 (replicate 24000 2)]
       quiet_env idle_worker)) = [(1000, replicate 48000 1)]"
    unfolding relay_task_def spc Let_def f by (simp add: relay_flush_def)
  with spc show ?thesis by simp
qed

theorem C4_exactly_half_not_flushed_witness:
  "length (snd (snd (relay_task 1000 ''A''
       [frame_at 1000 (replicate 48000 1), frame_at 1500 (replicate 24000 2)]
       quiet_env idle_worker))) = 1"
  using C4_exactly_half_not_flushed by simp

section \<open>Recreating a route\<close>

lemma recreate_other:
  "other \<noteq> pid \<Longrightarrow>
   routes (fst (recreateRouteForParticipant unpub pub pid w)) other = routes w other"
  by (auto simp: recreateRouteForParticipant_def unpublishTrack_def publishTrack_def
      new_source_and_track_def Let_def split: option.splits prod.splits sum.splits)

text \<open>
  Claim C5, as amended. The registry is a map from identities, so it holds at most one
  route per identity at any time. After recreateRouteForParticipant completes for an
  identity that had a route and has a voice assignment: the routes of other identities and
  the voice assignments are as before; with a room, unpublishing the old route's track was
  requested, and the track is no longer published when that call succeeded, an error of it
  being ignored; when publishing the new track succeeds, exactly the newly created route,
  with fresh source and track and the voice of the identity's voice assignment, is
  registered for the identity; when publishing fails or there is no room, no route is
  registered for it.
\<close>

theorem C5_recreate_route:
  assumes "routes w pid = Some old" and "participantVoices w pid = Some v"
  shows "(\<forall>other. other \<noteq> pid \<longrightarrow>
            routes (fst (recreateRouteForParticipant unpub pub pid w)) other = routes w other) \<and>
         participantVoices (fst (recreateRouteForParticipant unpub pub pid w)) = participantVoices w \<and>
         (room w \<noteq> None \<longrightarrow>
            UnpublishTrack (rt_track old) \<in> set (snd (recreateRouteForParticipant unpub pub pid w))) \<and>
         (room w \<noteq> None \<and> pub = None \<longrightarrow>
            routes (fst (recreateRouteForParticipant unpub pub pid w)) pid =
              Some \<lparr>rt_key = ''from-'' @ pid, rt_voiceId = voiceId v,
                    rt_source = Some (next_handle w), rt_track = next_handle w + 1\<rparr> \<and>
            next_handle w + 1 \<in> set (published (fst (recreateRouteForParticipant unpub pub pid w)))) \<and>
         (room w = None \<or> pub \<noteq> None \<longrightarrow>
            routes (fst (recreateRouteForParticipant unpub pub pid w)) pid = None) \<and>
         (room w \<noteq> None \<and> unpub = None \<and> rt_track old < next_handle w \<longrightarrow>
            rt_track old \<notin> set (published (fst (recreateRouteForParticipant unpub pub pid w))))"
  using assms
  by (auto simp: recreateRouteForParticipant_def unpublishTrack_def publishTrack_def
      new_source_and_track_def Let_def split: option.splits prod.splits sum.splits)

theorem C5_recreate_route_witness:
  "routes speaking_worker ''B'' = Some route_B \<and>
   routes (fst (recreateRouteForParticipant None None ''B'' speaking_worker)) ''B'' =
     Some \<lparr>rt_key = ''from-B'', rt_voiceId = ''v2'', rt_source = Some 4, rt_track = 5\<rparr> \<and>
   routes (fst (recreateRouteForParticipant None None ''B'' speaking_worker)) ''A'' = Some route_A \<and>
   published (fst (recreateRouteForParticipant None None ''B'' speaking_worker)) = [1, 5]"
proof -
  have h: "routes speaking_worker ''B'' = Some route_B"
    "participantVoices speaking_worker ''B'' = Some \<lparr>voiceId = ''v2'', voiceName = ''Custom Voice''\<rparr>"
    by (simp_all add: speaking_worker_def)
  have r: "room speaking_worker \<noteq> None" by (simp add: speaking_worker_def)
  from C5_recreate_route [OF h, of None None] r
  have "routes (fst (recreateRouteForParticipant None None ''B'' speaking_worker)) ''B'' =
     Some \<lparr>rt_key = ''from-B'', rt_voiceId = ''v2'', rt_source = Some 4, rt_track = 5\<rparr>"
    and "routes (fst (recreateRouteForParticipant None None ''B'' speaking_worker)) ''A'' =
      routes speaking_worker ''A''"
    by (simp_all add: speaking_worker_def)
  moreover have "published (fst (recreateRouteForParticipant None None ''B'' speaking_worker)) = [1, 5]"
    by (simp add: recreateRouteForParticipant_def unpublishTrack_def publishTrack_def
        new_source_and_track_def speaking_worker_def route_B_def Let_def)
  ultimately show ?thesis using h by (simp add: speaking_worker_def)
qed

text \<open>
  Claim C5 as stated fails: B has a route and a voice; publishing the new track fails;
  recreateRouteForParticipant catches the error and completes, and no route is registered
  for B.
\<close>

theorem C5_publish_fails_counterexample:
  "routes speaking_worker ''B'' = Some route_B \<and>
   participantVoices speaking_worker ''B'' = Some \<lparr>voiceId = ''v2'', voiceName = ''Custom Voice''\<rparr> \<and>
   routes (fst (recreateRouteForParticipant None (Some (Exn ''Error'' ''publish failed'' []))
     ''B'' speaking_worker)) ''B'' = None"
  by (simp add: recreateRouteForParticipant_def unpublishTrack_def publishTrack_def
      new_source_and_track_def speaking_worker_def route_B_def Let_def)

section \<open>A capture that fails\<close>

lemma recreate_keeps:
  "recentlyRecreated (fst (recreateRouteForParticipant unpub pub i w)) = recentlyRecreated w"
  "timers (fst (recreateRouteForParticipant unpub pub i w)) = timers w"
  "activeS2S (fst (recreateRouteForParticipant unpub pub i w)) = activeS2S w"
  "running (fst (recreateRouteForParticipant unpub pub i w)) = running w"
  "quotaExhausted (fst (recreateRouteForParticipant unpub pub i w)) = quotaExhausted w"
  by (auto simp: recreateRouteForParticipant_def unpublishTrack_def publishTrack_def
      new_source_and_track_def Let_def split: option.splits prod.splits sum.splits)

lemma unhandledRejection_quiet:
  "filter is_capture (on_unhandledRejection e) = []"
  "count_list (on_unhandledRejection e) (Log (Recreating i)) = 0"
  by (simp_all add: on_unhandledRejection_def is_capture_def)

text \<open>
  As long as no call of \<open>captureFrame\<close> throws at once, the loop passes every frame to
  \<open>captureFrame\<close>, counts every frame, and changes nothing.
\<close>

lemma publish_frames_no_throw:
  assumes "room w = Some ConnConnected" and "rt_source route = Some src"
    and "routes w speaker = Some r" and "rt_source r \<noteq> None"
    and "\<forall>j<length slices. \<forall>e. capture_outcome env (k + j) \<noteq> CaptureThrows e"
  shows "fst (publish_frames env speaker route slices k w) = k + length slices \<and>
         fst (snd (publish_frames env speaker route slices k w)) = w \<and>
         filter is_capture (snd (snd (publish_frames env speaker route slices k w))) =
           map (CaptureFrame src) slices \<and>
         count_list (snd (snd (publish_frames env speaker route slices k w)))
           (Log (Recreating speaker)) = 0"
  using assms(5)
proof (induction slices arbitrary: k)
  case Nil
  then show ?case by simp
next
  case (Cons s slices)
  have c: "\<forall>e. capture_outcome env k \<noteq> CaptureThrows e"
    using Cons.prems by force
  have "\<forall>j<length slices. \<forall>e. capture_outcome env (Suc k + j) \<noteq> CaptureThrows e"
    using Cons.prems by force
  from Cons.IH [OF this]
  have ih: "fst (publish_frames env speaker route slices (Suc k) w) = Suc k + length slices"
    "fst (snd (publish_frames env speaker route slices (Suc k) w)) = w"
    "filter is_capture (snd (snd (publish_frames env speaker route slices (Suc k) w))) =
       map (CaptureFrame src) slices"
    "count_list (snd (snd (publish_frames env speaker route slices (Suc k) w)))
       (Log (Recreating speaker)) = 0"
    by simp_all
  have cap: "is_capture (CaptureFrame src s)" by (simp add: is_capture_def)
  show ?case
    using assms(1-4) c ih cap
    by (cases "capture_outcome env k") (simp_all add: split_beta unhandledRejection_quiet)
qed

text \<open>
  Claim C7, at the input where the code leaves it. In the publishing loop of a connected
  worker whose route for the speaker is in place, the speaker not being marked as recently
  recreated, the capture of the frame that follows the frames \<open>pre\<close> fails with an
  InvalidState error, the way \<open>captureFrame\<close> reports a failure: the promise it returned
  rejects. The claim has one route recreation, a mark that expires after 5000 ms, and the rest
  of the chunk's frames abandoned. The code does not await the promise (line 873), so the catch
  blocks written for this never run: every frame of the chunk, the failed one and those
  behind it included, is passed to \<open>captureFrame\<close> and counted as published;
  recreateRouteForParticipant is not called; and the worker is as it was, so the route is
  the old one, the speaker is not marked and no timer is set.
\<close>

theorem C7_rejected_capture_unnoticed:
  assumes "room w = Some ConnConnected" and "rt_source route = Some src"
    and "routes w speaker = Some r" and "rt_source r \<noteq> None"
    and "speaker \<notin> recentlyRecreated w"
    and "capture_outcome env (length pre) = CaptureRejects e"
    and "str_includes (exn_message e) ''InvalidState''"
    and "\<forall>j e'. capture_outcome env j \<noteq> CaptureThrows e'"
  shows "let res = publish_frames env speaker route (pre @ x # post) 0 w;
             n = fst res; w' = fst (snd res); fx = snd (snd res)
         in n = length (pre @ x # post) \<and>
            filter is_capture fx = map (CaptureFrame src) (pre @ x # post) \<and>
            count_list fx (Log (Recreating speaker)) = 0 \<and>
            w' = w \<and> routes w' speaker = Some r \<and> speaker \<notin> recentlyRecreated w' \<and>
            timers w' = timers w"
proof -
  have "\<forall>j<length (pre @ x # post). \<forall>e'. capture_outcome env (0 + j) \<noteq> CaptureThrows e'"
    using assms(8) by simp
  from publish_frames_no_throw [OF assms(1-4) this]
  show ?thesis using assms(3,5) by (simp add: Let_def)
qed

theorem C7_rejected_capture_unnoticed_witness:
  "capture_outcome (failing_env 7000 [] [CaptureResolves, CaptureResolves, CaptureRejects invalid_state])
      (length [[1], [2::int16]]) = CaptureRejects invalid_state \<and>
   ''B'' \<notin> recentlyRecreated speaking_worker \<and>
   fst (publish_frames (failing_env 7000 [] [CaptureResolves, CaptureResolves, CaptureRejects invalid_state])
          ''B'' route_B ([[1], [2]] @ [3] # [[4]]) 0 speaking_worker) = 4 \<and>
   filter is_capture (snd (snd (publish_frames
          (failing_env 7000 [] [CaptureResolves, CaptureResolves, CaptureRejects invalid_state])
          ''B'' route_B ([[1], [2]] @ [3] # [[4]]) 0 speaking_worker))) =
     [CaptureFrame 2 [1], CaptureFrame 2 [2], CaptureFrame 2 [3], CaptureFrame 2 [4]] \<and>
   count_list (snd (snd (publish_frames
          (failing_env 7000 [] [CaptureResolves, CaptureResolves, CaptureRejects invalid_state])
          ''B'' route_B ([[1], [2]] @ [3] # [[4]]) 0 speaking_worker))) (Log (Recreating ''B'')) = 0 \<and>
   fst (snd (publish_frames
          (failing_env 7000 [] [CaptureResolves, CaptureResolves, CaptureRejects invalid_state])
          ''B'' route_B ([[1], [2]] @ [3] # [[4]]) 0 speaking_worker)) = speaking_worker"
proof -
  let ?env = "failing_env 7000 [] [CaptureResolves, CaptureResolves, CaptureRejects invalid_state]"
  have h: "room speaking_worker = Some ConnConnected" "rt_source route_B = Some 2"
    "routes speaking_worker ''B'' = Some route_B" "rt_source route_B \<noteq> None"
    "''B'' \<notin> recentlyRecreated speaking_worker"
    "capture_outcome ?env (length [[1], [2::int16]]) = CaptureRejects invalid_state"
    "str_includes (exn_message invalid_state) ''InvalidState''"
    by (simp_all add: speaking_worker_def route_B_def capture_outcome_def failing_env_def
        invalid_state_def)
  have t: "\<forall>j e'. capture_outcome ?env j \<noteq> CaptureThrows e'"
    by (auto simp: capture_outcome_def failing_env_def nth_Cons split: nat.splits)
  show ?thesis
    using C7_rejected_capture_unnoticed [OF h t, of "[3]" "[[4]]"] h(5,6)
    by (simp add: Let_def)
qed

section \<open>One relay loop per speaker\<close>

lemma start_first: "fst (startAudioStream True ''A'' speaking_worker) = started_worker"
  by (simp add: startAudioStream_def speaking_worker_def route_A_def startsWith_def
      started_worker_def)

lemma left_worker_fields:
  "activeS2S left_worker = {}" "running left_worker = [''A'']"
  "routes left_worker ''A'' = None" "participantVoices left_worker ''A'' = None"
  "room left_worker = Some ConnConnected" "next_handle left_worker = 4"
  "published left_worker = [3]"
  by (simp_all add: left_worker_def handleParticipantDisconnected_def unpublishTrack_def
      started_worker_def speaking_worker_def route_A_def Let_def)

lemma rejoined_worker_fields:
  "activeS2S rejoined_worker = {''A''}" "running rejoined_worker = [''A'', ''A'']"
  "routes rejoined_worker ''A'' =
     Some \<lparr>rt_key = ''from-A'', rt_voiceId = ''v1'', rt_source = Some 4, rt_track = 5\<rparr>"
  by (simp_all add: rejoined_worker_def handleParticipantConnected_def loadParticipantVoice_def
      setupRouteForParticipant_def new_source_and_track_def publishTrack_def
      startAudioStreamIfTrackExists_def onTrackSubscribed_def startAudioStream_def
      startsWith_def left_worker_fields Let_def)

lemma disconnected_fields:
  "activeS2S (fst (onDisconnected 2000 1 started_worker)) = {}"
  "running (fst (onDisconnected 2000 1 started_worker)) = [''A'']"
  "timers (fst (onDisconnected 2000 1 started_worker)) = [(7000, Reconnect)]"
  by (simp_all add: onDisconnected_def started_worker_def speaking_worker_def Let_def)

lemma reconnect_fires:
  "fire_timers 7000 (fst (onDisconnected 2000 1 started_worker)) =
     (started_worker\<lparr>activeS2S := {}\<rparr>,
      [Log (Note ''Attempting to reconnect worker''), ConnectToRoom])"
  by (simp add: fire_timers_def run_timer_def onDisconnected_def started_worker_def
      speaking_worker_def Let_def)

lemma reconnected_running:
  "running (fst (handleParticipantConnected (Some ''v1'') None True ''A''
      (started_worker\<lparr>activeS2S := {}\<rparr>))) = [''A'', ''A'']"
  by (simp add: handleParticipantConnected_def loadParticipantVoice_def
      setupRouteForParticipant_def new_source_and_track_def publishTrack_def
      startAudioStreamIfTrackExists_def startAudioStream_def startsWith_def
      started_worker_def speaking_worker_def Let_def)

text \<open>
  Claim C6, at the input where the code leaves it. A's stream is started: one loop runs. It
  sends a chunk of one second and is suspended until the service answers. Now A leaves the
  room: the handler takes A out of \<open>activeS2S\<close> (line 611) and removes A's route, and the
  loop is still there. A joins again: a route is set up, and when A's audio track is
  subscribed A is not in \<open>activeS2S\<close>, so a second loop starts beside the first. When the
  first loop ends, its \<open>finally\<close> block takes A out of \<open>activeS2S\<close> although the second
  loop runs on. The same happens when the room disconnects: the handler empties
  \<open>activeS2S\<close> (line 368) and stops no loop; it sets the reconnect timer, and the
  reconnection, setting up the route of A, who is there with an audio track, starts a second
  loop.
\<close>

theorem C6_second_loop_while_first_runs:
  "fst (startAudioStream True ''A'' speaking_worker) = started_worker \<and>
   running started_worker = [''A''] \<and>
   step (Attempt 1000 ''A'' loud_chunk) started_worker =
     (started_worker, [Log (Note ''Processing audio chunk''),
                       Fetch ''v1'' (wav_header 48000 96000 @ pcm_bytes loud_chunk)]) \<and>
   ''A'' \<notin> activeS2S left_worker \<and> running left_worker = [''A''] \<and>
   ''A'' \<in> activeS2S rejoined_worker \<and> running rejoined_worker = [''A'', ''A''] \<and>
   ''A'' \<notin> activeS2S (relay_finally ''A'' rejoined_worker) \<and>
   running (relay_finally ''A'' rejoined_worker) = [''A''] \<and>
   ''A'' \<notin> activeS2S (fst (onDisconnected 2000 1 started_worker)) \<and>
   running (fst (onDisconnected 2000 1 started_worker)) = [''A''] \<and>
   ConnectToRoom \<in> set (snd (fire_timers 7000 (fst (onDisconnected 2000 1 started_worker)))) \<and>
   running (fst (handleParticipantConnected (Some ''v1'') None True ''A''
     (fst (fire_timers 7000 (fst (onDisconnected 2000 1 started_worker)))))) = [''A'', ''A'']"
proof -
  note a = attempt_started
  have r: "running started_worker = [''A'']" by (simp add: started_worker_def)
  have f: "''A'' \<notin> activeS2S (relay_finally ''A'' rejoined_worker)"
    "running (relay_finally ''A'' rejoined_worker) = [''A'']"
    by (simp_all add: relay_finally_def rejoined_worker_fields)
  show ?thesis
    using a r f
    by (simp add: start_first left_worker_fields rejoined_worker_fields disconnected_fields
        reconnect_fires reconnected_running route_A_def del: step.simps)
qed

theorem C6_second_loop_while_first_runs_witness:
  "count_list (running (fst (startAudioStream True ''A'' speaking_worker))) ''A'' = 1 \<and>
   count_list (running left_worker) ''A'' = 1 \<and>
   count_list (running rejoined_worker) ''A'' = 2"
  using C6_second_loop_while_first_runs by simp

text \<open>
  Property X1. A start request for an identity that is in the active set changes nothing.
  A start request that goes through enters the identity in the active set and starts one
  loop. When the loop's task has run to its end, its \<open>finally\<close> block has taken the
  identity out of the active set.
\<close>

theorem start_guard_and_finally:
  "(speaker \<in> activeS2S w \<longrightarrow> fst (startAudioStream track speaker w) = w) \<and>
   (fst (startAudioStream track speaker w) \<noteq> w \<longrightarrow>
      speaker \<in> activeS2S (fst (startAudioStream track speaker w)) \<and>
      running (fst (startAudioStream track speaker w)) = running w @ [speaker]) \<and>
   speaker \<notin> activeS2S (fst (relay_task chunk_ms speaker evs flush_env w))"
proof (intro conjI impI)
  assume "speaker \<in> activeS2S w"
  then show "fst (startAudioStream track speaker w) = w" by (simp add: startAudioStream_def)
next
  assume "fst (startAudioStream track speaker w) \<noteq> w"
  then show "speaker \<in> activeS2S (fst (startAudioStream track speaker w))"
    and "running (fst (startAudioStream track speaker w)) = running w @ [speaker]"
    by (auto simp: startAudioStream_def split: if_splits option.splits)
next
  show "speaker \<notin> activeS2S (fst (relay_task chunk_ms speaker evs flush_env w))"
    by (auto simp: relay_task_def relay_finally_def Let_def split: prod.splits step_result.splits)
qed

theorem start_guard_and_finally_witness:
  "''A'' \<in> activeS2S started_worker \<and>
   fst (startAudioStream True ''A'' started_worker) = started_worker \<and>
   fst (startAudioStream True ''A'' speaking_worker) \<noteq> speaking_worker \<and>
   running (fst (startAudioStream True ''A'' speaking_worker)) = [''A''] \<and>
   ''A'' \<notin> activeS2S (fst (relay_task 1000 ''A'' [] quiet_env started_worker))"
proof -
  have 1: "''A'' \<in> activeS2S started_worker" by (simp add: started_worker_def)
  have "running (fst (startAudioStream True ''A'' speaking_worker)) \<noteq> running speaking_worker"
    unfolding start_first started_worker_def by (simp add: speaking_worker_def)
  then have 2: "fst (startAudioStream True ''A'' speaking_worker) \<noteq> speaking_worker"
    by auto
  have 3: "running speaking_worker = []" by (simp add: speaking_worker_def)
  show ?thesis
    using start_guard_and_finally [of "''A''" started_worker True 1000 "[]" quiet_env]
      start_guard_and_finally [of "''A''" speaking_worker True 1000 "[]" quiet_env] 1 2 3
    by simp
qed

section \<open>The quota cooldown\<close>

text \<open>
  One whole call of sendS2SChunk is an attempt followed at once by its response, if the
  attempt issued a request.
\<close>

lemma sendS2SChunk_as_events:
  "snd (sendS2SChunk env speaker int16 w) =
     (case fst (sendS2SChunk_begin (env_start env) speaker int16 w) of
        Request route wav \<Rightarrow>
          run [Attempt (env_start env) speaker int16, Response env speaker route] w
      | _ \<Rightarrow> run [Attempt (env_start env) speaker int16] w)"
  by (auto simp: sendS2SChunk_def on_send_error_def split: prod.splits decision.splits option.splits)


lemma publish_frames_quota:
  "quotaExhausted (fst (snd (publish_frames env speaker route slices k w))) = quotaExhausted w"
proof (induction slices arbitrary: k w)
  case Nil
  then show ?case by simp
next
  case (Cons s slices)
  have c: "quotaExhausted (fst (snd (on_capture_error env speaker e w))) = quotaExhausted w" for e
    by (simp add: on_capture_error_def Let_def split_beta recreate_keeps)
  have f: "quotaExhausted (fst (on_frame_error speaker e w')) = quotaExhausted w'" for e w'
    by (simp add: on_frame_error_def)
  show ?case
    using Cons.IH c f
    by (auto simp: split_beta split: option.splits sum.splits prod.splits capture_result.splits)
qed

lemma begin_cooling:
  assumes "quotaExhausted w = Some q" "q \<noteq> 0" "now - q < 60000"
  shows "\<forall>x\<in>set (snd (step (Attempt now speaker int16) w)). \<not> is_fetch x"
    and "fst (step (Attempt now speaker int16) w) = w"
  using assms
  by (auto simp: sendS2SChunk_begin_def is_fetch_def split: option.splits)

lemma response_cooling:
  assumes "cooling T w" "T \<le> env_now env" "\<not> is_success_response (Response env speaker route)"
  shows "cooling T (fst (step (Response env speaker route) w))"
    and "\<forall>x\<in>set (snd (step (Response env speaker route) w)). \<not> is_fetch x"
  using assms
  by (auto simp: sendS2SChunk_response_def cooling_def on_send_error_def is_fetch_def Let_def
      split: fetch_outcome.splits sum.splits option.splits if_splits)

lemma timer_cooling:
  assumes "cooling T w" "now < T + 60000"
  shows "cooling T (fst (step (QuotaTimer now) w))"
    and "snd (step (QuotaTimer now) w) = []"
  using assms
  by (auto simp: quota_reset_tick_def cooling_def split: option.splits)

lemma step_cooling:
  assumes "0 < T" "cooling T w" "T \<le> event_time e" "event_time e < T + 60000"
    "\<not> is_success_response e"
  shows "cooling T (fst (step e w)) \<and> (\<forall>x\<in>set (snd (step e w)). \<not> is_fetch x)"
proof (cases e)
  case (Attempt now speaker int16)
  obtain q where q: "quotaExhausted w = Some q" "T \<le> q"
    using assms(2) by (auto simp: cooling_def split: option.splits)
  have "q \<noteq> 0" "now - q < 60000" using q assms(1,4) Attempt by auto
  from begin_cooling [OF q(1) this, of speaker int16] show ?thesis
    using assms(2) Attempt by simp
next
  case (Response env speaker route)
  then show ?thesis
    using response_cooling [of T w env speaker route] assms by simp
next
  case (QuotaTimer now)
  then show ?thesis using timer_cooling [of T w now] assms by simp
qed

lemma run_cooling:
  assumes "0 < T" "cooling T w"
    "\<forall>e\<in>set evs. T \<le> event_time e \<and> event_time e < T + 60000 \<and> \<not> is_success_response e"
  shows "\<forall>x\<in>set (snd (run evs w)). \<not> is_fetch x"
  using assms(2,3)
proof (induction evs arbitrary: w)
  case Nil
  then show ?case by simp
next
  case (Cons e evs)
  have s: "cooling T (fst (step e w))" "\<forall>x\<in>set (snd (step e w)). \<not> is_fetch x"
    using step_cooling [OF assms(1) Cons.prems(1), of e] Cons.prems(2) by auto
  have "\<forall>x\<in>set (snd (run evs (fst (step e w)))). \<not> is_fetch x"
    using Cons.IH [OF s(1)] Cons.prems(2) by simp
  then show ?case using s(2) by (auto simp: split_beta)
qed

lemma success_clears:
  assumes "is_success_response (Response env speaker route)"
  shows "\<not> truthy_time (quotaExhausted (fst (step (Response env speaker route) w)))"
  using assms
  by (auto simp: sendS2SChunk_response_def Let_def split_beta publish_frames_quota truthy_time_def
      split: fetch_outcome.splits sum.splits option.splits)

lemma begin_resumes:
  assumes "quotaExhausted w = Some T" "T + 60000 \<le> now"
  shows "sendS2SChunk_begin now speaker int16 w =
         sendS2SChunk_begin now speaker int16 (w\<lparr>quotaExhausted := None\<rparr>)"
  using assms by (auto simp: sendS2SChunk_begin_def split: option.splits)

text \<open>
  Claim C1, as amended. A response that is a quota failure (401 or 429 with \<open>quota\<close> in
  its body) sets the quota-exhausted state to the clock reading \<open>T\<close> at which it is
  handled. From a worker whose state was so set at a positive \<open>T\<close>, through any
  interleaving of attempts of any speakers, responses and timer ticks at times from \<open>T\<close>
  to before \<open>T + 60000\<close>, no attempt issues a request, as long as none of the responses
  is that of a successful call. At or after \<open>T + 60000\<close> an attempt proceeds as if the
  state were clear. A successful call clears the state.
\<close>

theorem C1_quota_cooldown:
  "(env_fetch env = FetchResolves res \<and> \<not> res_ok res \<and>
      (res_status res = 401 \<or> res_status res = 429) \<and> str_includes (body_text res) ''quota'' \<longrightarrow>
      quotaExhausted (fst (step (Response env speaker route) w)) = Some (env_now env)) \<and>
   (quotaExhausted w = Some T \<and> 0 < T \<and>
      (\<forall>e\<in>set evs. T \<le> event_time e \<and> event_time e < T + 60000 \<and> \<not> is_success_response e) \<longrightarrow>
      (\<forall>x\<in>set (snd (run evs w)). \<not> is_fetch x)) \<and>
   (quotaExhausted w = Some T \<and> T + 60000 \<le> now \<longrightarrow>
      sendS2SChunk_begin now speaker int16 w =
      sendS2SChunk_begin now speaker int16 (w\<lparr>quotaExhausted := None\<rparr>)) \<and>
   (is_success_response (Response env speaker route) \<longrightarrow>
      \<not> truthy_time (quotaExhausted (fst (step (Response env speaker route) w))))"
proof (intro conjI impI)
  assume "env_fetch env = FetchResolves res \<and> \<not> res_ok res \<and>
      (res_status res = 401 \<or> res_status res = 429) \<and> str_includes (body_text res) ''quota''"
  then show "quotaExhausted (fst (step (Response env speaker route) w)) = Some (env_now env)"
    by (auto simp: sendS2SChunk_response_def body_text_def Let_def)
next
  assume h: "quotaExhausted w = Some T \<and> 0 < T \<and>
      (\<forall>e\<in>set evs. T \<le> event_time e \<and> event_time e < T + 60000 \<and> \<not> is_success_response e)"
  then have "cooling T w" by (simp add: cooling_def)
  with h show "\<forall>x\<in>set (snd (run evs w)). \<not> is_fetch x"
    using run_cooling [of T w evs] by blast
next
  assume "quotaExhausted w = Some T \<and> T + 60000 \<le> now"
  then show "sendS2SChunk_begin now speaker int16 w =
      sendS2SChunk_begin now speaker int16 (w\<lparr>quotaExhausted := None\<rparr>)"
    using begin_resumes by blast
next
  assume "is_success_response (Response env speaker route)"
  then show "\<not> truthy_time (quotaExhausted (fst (step (Response env speaker route) w)))"
    by (rule success_clears)
qed

lemma failure_trace:
  "fst (run trace_to_failure speaking_worker) = speaking_worker\<lparr>quotaExhausted := Some 1000\<rparr>"
proof -
  have a: "step (Attempt 100 ''A'' shout) speaking_worker =
      (speaking_worker, [Log (Note ''Processing audio chunk''),
          Fetch (rt_voiceId route_A) (wav_header 48000 2 @ pcm_bytes shout)])"
    by (rule attempt_speaking) (simp_all add: speaking_worker_def route_A_def truthy_time_def)
  have b: "step (Attempt 150 ''B'' shout) speaking_worker =
      (speaking_worker, [Log (Note ''Processing audio chunk''),
          Fetch (rt_voiceId route_B) (wav_header 48000 2 @ pcm_bytes shout)])"
    by (rule attempt_speaking) (simp_all add: speaking_worker_def route_B_def truthy_time_def)
  have c: "step (Response (response_env 1000 429 ''quota_exceeded'' []) ''B'' route_B) speaking_worker =
      (speaking_worker\<lparr>quotaExhausted := Some 1000\<rparr>, [Log QuotaExhaustedPausing])"
    by (simp add: sendS2SChunk_response_def response_env_def res_ok_def)
  show ?thesis
    by (simp add: trace_to_failure_def a b c del: step.simps)
qed

lemma late_success_clears:
  "fst (step late_success (speaking_worker\<lparr>quotaExhausted := Some 1000\<rparr>)) =
     speaking_worker\<lparr>lastSuccessfulCall := 1500\<rparr>"
  by (simp add: late_success_def sendS2SChunk_response_def response_env_def res_ok_def route_A_def
      samplesPer20ms_def truthy_time_def speaking_worker_def)

theorem C1_quota_cooldown_witness:
  "quotaExhausted (fst (step (Response (response_env 1000 429 ''quota_exceeded'' []) ''B'' route_B)
      speaking_worker)) = Some 1000 \<and>
   list_all (\<lambda>x. \<not> is_fetch x)
     (snd (run [Attempt 2000 ''A'' shout, QuotaTimer 30000, Attempt 60999 ''B'' shout] cooling_worker)) \<and>
   sendS2SChunk_begin 61000 ''B'' shout cooling_worker =
     sendS2SChunk_begin 61000 ''B'' shout (cooling_worker\<lparr>quotaExhausted := None\<rparr>) \<and>
   \<not> truthy_time (quotaExhausted (fst (step late_success cooling_worker)))"
proof -
  let ?q = "response_env 1000 429 ''quota_exceeded'' []"
  let ?res = "\<lparr>res_status = 429, res_text = Some ''quota_exceeded'', res_arrayBuffer = Inr []\<rparr>"
  have 1: "env_fetch ?q = FetchResolves ?res \<and> \<not> res_ok ?res \<and>
      (res_status ?res = 401 \<or> res_status ?res = 429) \<and> str_includes (body_text ?res) ''quota''"
    by (simp add: response_env_def res_ok_def body_text_def)
  have 2: "quotaExhausted cooling_worker = Some 1000 \<and> (0::int) < 1000 \<and>
      (\<forall>e\<in>set [Attempt 2000 ''A'' shout, QuotaTimer 30000, Attempt 60999 ''B'' shout].
         1000 \<le> event_time e \<and> event_time e < 1000 + 60000 \<and> \<not> is_success_response e)"
    by (simp add: cooling_worker_def)
  have 3: "quotaExhausted cooling_worker = Some 1000 \<and> (1000::int) + 60000 \<le> 61000"
    by (simp add: cooling_worker_def)
  have 4: "is_success_response late_success"
    by (simp add: late_success_def response_env_def res_ok_def route_A_def)
  note b = C1_quota_cooldown [where env = ?q and res = ?res and speaker = "''B''"
      and route = route_B and w = speaking_worker]
  note c = C1_quota_cooldown [where w = cooling_worker and T = 1000 and now = 61000
      and evs = "[Attempt 2000 ''A'' shout, QuotaTimer 30000, Attempt 60999 ''B'' shout]"
      and speaker = "''B''" and ?int16.0 = shout]
  note d = C1_quota_cooldown [where env = "response_env 1500 200 [] [0, 0]" and speaker = "''A''"
      and route = route_A and w = cooling_worker]
  have "quotaExhausted (fst (step (Response ?q ''B'' route_B) speaking_worker)) = Some 1000"
    using b 1 by (simp add: response_env_def del: step.simps)
  moreover have "list_all (\<lambda>x. \<not> is_fetch x)
     (snd (run [Attempt 2000 ''A'' shout, QuotaTimer 30000, Attempt 60999 ''B'' shout] cooling_worker))"
    using c 2 unfolding list_all_iff by blast
  moreover have "sendS2SChunk_begin 61000 ''B'' shout cooling_worker =
     sendS2SChunk_begin 61000 ''B'' shout (cooling_worker\<lparr>quotaExhausted := None\<rparr>)"
    using c 3 by blast
  moreover have "\<not> truthy_time (quotaExhausted (fst (step late_success cooling_worker)))"
    using d 4 unfolding late_success_def by blast
  ultimately show ?thesis by blast
qed

text \<open>
  Claim C1 as stated fails. Calls for A and B are in flight; B's is answered with a quota
  failure at time 1000; A's, issued before, is answered 200 at time 1500 and clears the
  state; B's next attempt, at time 2000 and so within the cooldown, issues a request.
\<close>

theorem C1_in_flight_success_counterexample:
  "quotaExhausted (fst (run trace_to_failure speaking_worker)) = Some 1000 \<and>
   (1000::int) \<le> 2000 \<and> (2000::int) < 1000 + 60000 \<and>
   list_ex is_fetch
     (snd (step (Attempt 2000 ''B'' shout)
        (fst (step late_success (fst (run trace_to_failure speaking_worker))))))"
proof -
  have "step (Attempt 2000 ''B'' shout) (speaking_worker\<lparr>lastSuccessfulCall := 1500\<rparr>) =
      (speaking_worker\<lparr>lastSuccessfulCall := 1500\<rparr>, [Log (Note ''Processing audio chunk''),
          Fetch (rt_voiceId route_B) (wav_header 48000 2 @ pcm_bytes shout)])"
    by (rule attempt_speaking) (simp_all add: speaking_worker_def route_B_def truthy_time_def)
  then show ?thesis
    by (simp add: failure_trace late_success_clears is_fetch_def del: step.simps)
qed

end
